theory Spec2Isabelle
  imports Complex_Main "HOL-Library.Word"
begin

unbundle bit_operations_syntax

section \<open>Numbers, grids and errors\<close>

text \<open>
  JavaScript numbers are modelled as exact reals. Where the source itself produces
  \<open>-Infinity\<close> (the tabular agent's \<open>Math.max\<close> over an all-invalid action set) the
  values are the reals extended by the two infinities and NaN, with the arithmetic of
  IEEE 754 on those special values and exact arithmetic on the finite ones.
\<close>

datatype jsnum = Fin real | PInf | NInf | NaN

fun js_neg :: "jsnum \<Rightarrow> jsnum" where
  "js_neg (Fin a) = Fin (- a)"
| "js_neg PInf = NInf"
| "js_neg NInf = PInf"
| "js_neg NaN = NaN"

fun js_add :: "jsnum \<Rightarrow> jsnum \<Rightarrow> jsnum" where
  "js_add NaN _ = NaN"
| "js_add _ NaN = NaN"
| "js_add (Fin a) (Fin b) = Fin (a + b)"
| "js_add PInf NInf = NaN"
| "js_add NInf PInf = NaN"
| "js_add PInf _ = PInf"
| "js_add _ PInf = PInf"
| "js_add NInf _ = NInf"
| "js_add _ NInf = NInf"

definition js_sub :: "jsnum \<Rightarrow> jsnum \<Rightarrow> jsnum" where
  "js_sub a b = js_add a (js_neg b)"

fun js_sign_inf :: "real \<Rightarrow> jsnum \<Rightarrow> jsnum" where
  "js_sign_inf a i = (if a = 0 then NaN else if 0 < a then i else js_neg i)"

fun js_mul :: "jsnum \<Rightarrow> jsnum \<Rightarrow> jsnum" where
  "js_mul NaN _ = NaN"
| "js_mul _ NaN = NaN"
| "js_mul (Fin a) (Fin b) = Fin (a * b)"
| "js_mul (Fin a) PInf = js_sign_inf a PInf"
| "js_mul (Fin a) NInf = js_sign_inf a NInf"
| "js_mul PInf (Fin b) = js_sign_inf b PInf"
| "js_mul NInf (Fin b) = js_sign_inf b NInf"
| "js_mul PInf PInf = PInf"
| "js_mul NInf NInf = PInf"
| "js_mul PInf NInf = NInf"
| "js_mul NInf PInf = NInf"

text \<open>\<open>a > b\<close> on JavaScript numbers: false as soon as one side is NaN.\<close>

fun js_gt :: "jsnum \<Rightarrow> jsnum \<Rightarrow> bool" where
  "js_gt NaN _ = False"
| "js_gt _ NaN = False"
| "js_gt (Fin a) (Fin b) = (b < a)"
| "js_gt PInf PInf = False"
| "js_gt PInf _ = True"
| "js_gt _ PInf = False"
| "js_gt NInf _ = False"
| "js_gt _ NInf = True"

text \<open>\<open>Math.max(a, b)\<close> and \<open>Math.max(...xs)\<close>; the maximum of no argument is \<open>-Infinity\<close>.\<close>

fun js_max2 :: "jsnum \<Rightarrow> jsnum \<Rightarrow> jsnum" where
  "js_max2 NaN _ = NaN"
| "js_max2 _ NaN = NaN"
| "js_max2 a b = (if js_gt b a then b else a)"

fun js_max :: "jsnum list \<Rightarrow> jsnum" where
  "js_max [] = NInf"
| "js_max (x # xs) = js_max2 x (js_max xs)"

datatype error = TypeError

type_synonym pos = "int \<times> int"
type_synonym maze = "int list list"

text \<open>
  \<open>maze[x][y]\<close> for \<open>x, y \<ge> 0\<close>: reading a row that does not exist and then indexing it
  throws; reading past the end of an existing row gives \<open>undefined\<close> (here \<open>None\<close>).
\<close>

definition maze_at :: "maze \<Rightarrow> int \<Rightarrow> int \<Rightarrow> error + int option" where
  "maze_at m x y =
     (if x < 0 \<or> int (length m) \<le> x then Inl TypeError
      else if y < 0 \<or> int (length (m ! nat x)) \<le> y then Inr None
      else Inr (Some (m ! nat x ! nat y)))"

text \<open>Actions: 0=up, 1=right, 2=down, 3=left.\<close>

definition actions :: "(int \<times> int) list" where
  "actions = [(-1, 0), (0, 1), (1, 0), (0, -1)]"

text \<open>
  The options object of the agents' constructors: an absent field is \<open>None\<close>. \<open>options.f || d\<close>
  takes the default also for the falsy value 0.
\<close>

record options =
  opt_epsilon :: "real option"
  opt_epsilonDecay :: "real option"
  opt_epsilonMin :: "real option"
  opt_gamma :: "real option"
  opt_learningRate :: "real option"
  opt_useMCTS :: "bool option"

definition orDefault :: "real option \<Rightarrow> real \<Rightarrow> real" where
  "orDefault v d = (case v of None \<Rightarrow> d | Some x \<Rightarrow> if x = 0 then d else x)"

section \<open>Tabular Q-learning agent (QLearningAgent)\<close>

text \<open>
  The table maps the key \<open>`${x},${y}`\<close> (injective on integer pairs, so the pair itself
  here) to an array of action values. An array read out of range gives \<open>undefined\<close>, which
  every arithmetic use turns into NaN; an out-of-range write extends the array.
\<close>

record qagent =
  q_width :: int
  q_height :: int
  q_epsilon :: real
  q_epsilonStart :: real
  q_epsilonDecay :: real
  q_epsilonMin :: real
  q_gamma :: real
  q_learningRate :: real
  q_qTable :: "pos \<rightharpoonup> jsnum list"
  q_position :: pos
  q_path :: "pos list"
  q_moves :: int
  q_isTraining :: bool
  q_gamesPlayed :: int
  q_totalMoves :: int
  q_moveHistory :: "int list"
  q_successfulGames :: int

definition QLearningAgent :: "int \<Rightarrow> int \<Rightarrow> options \<Rightarrow> qagent" where
  "QLearningAgent mazeWidth mazeHeight opts =
     (let eps = orDefault (opt_epsilon opts) 0.9;
          decay = orDefault (opt_epsilonDecay opts) 0.995
      in \<lparr>q_width = mazeWidth, q_height = mazeHeight, q_epsilon = eps, q_epsilonStart = eps,
          q_epsilonDecay = min 0.9999 (max 0.9 decay),
          q_epsilonMin = min eps (case opt_epsilonMin opts of None \<Rightarrow> 0.01 | Some v \<Rightarrow> v),
          q_gamma = orDefault (opt_gamma opts) 0.95,
          q_learningRate = orDefault (opt_learningRate opts) 0.1,
          q_qTable = Map.empty, q_position = (1, 1), q_path = [(1, 1)], q_moves = 0,
          q_isTraining = False, q_gamesPlayed = 0, q_totalMoves = 0, q_moveHistory = [],
          q_successfulGames = 0\<rparr>)"

definition noOptions :: options where
  "noOptions =
     \<lparr>opt_epsilon = None, opt_epsilonDecay = None, opt_epsilonMin = None, opt_gamma = None,
      opt_learningRate = None, opt_useMCTS = None\<rparr>"

definition arr_read :: "jsnum list \<Rightarrow> nat \<Rightarrow> jsnum" where
  "arr_read xs a = (if a < length xs then xs ! a else NaN)"

definition arr_write :: "jsnum list \<Rightarrow> nat \<Rightarrow> jsnum \<Rightarrow> jsnum list" where
  "arr_write xs a v =
     (if a < length xs then xs[a := v] else xs @ replicate (a - length xs) NaN @ [v])"

definition q_ensure :: "qagent \<Rightarrow> pos \<Rightarrow> qagent" where
  "q_ensure ag s =
     (case q_qTable ag s of
        None \<Rightarrow> ag\<lparr>q_qTable := (q_qTable ag)(s \<mapsto> replicate 4 (Fin 0))\<rparr>
      | Some _ \<Rightarrow> ag)"

definition getQValue :: "qagent \<Rightarrow> pos \<Rightarrow> nat \<Rightarrow> jsnum \<times> qagent" where
  "getQValue ag s a =
     (let ag' = q_ensure ag s in (arr_read (the (q_qTable ag' s)) a, ag'))"

definition setQValue :: "qagent \<Rightarrow> pos \<Rightarrow> nat \<Rightarrow> jsnum \<Rightarrow> qagent" where
  "setQValue ag s a v =
     (let ag' = q_ensure ag s
      in ag'\<lparr>q_qTable := (q_qTable ag')(s \<mapsto> arr_write (the (q_qTable ag' s)) a v)\<rparr>)"

text \<open>The value a later \<open>getQValue\<close> would return for an entry: 0 for an absent key.\<close>

definition q_value :: "qagent \<Rightarrow> pos \<Rightarrow> nat \<Rightarrow> jsnum" where
  "q_value ag s a = fst (getQValue ag s a)"

definition isValidMove :: "int \<Rightarrow> int \<Rightarrow> pos \<Rightarrow> nat \<Rightarrow> maze \<Rightarrow> error + bool" where
  "isValidMove width height s a m =
     (if 4 \<le> a then Inl TypeError
      else let newX = fst s + fst (actions ! a); newY = snd s + snd (actions ! a)
           in if newX \<ge> 0 \<and> newX < height \<and> newY \<ge> 0 \<and> newY < width
              then (case maze_at m newX newY of
                      Inl e \<Rightarrow> Inl e
                    | Inr v \<Rightarrow> Inr (v = Some 0))
              else Inr False)"

text \<open>
  One element of the array built in \<open>updateQValue\<close>:
  \<open>isValidMove(newState, a, maze) ? getQValue(newState, a) : -Infinity\<close>,
  for \<open>a = 0, 1, 2, 3\<close> in order, threading the lazily filled table.
\<close>

fun futureQs :: "qagent \<Rightarrow> pos \<Rightarrow> maze \<Rightarrow> nat list \<Rightarrow> error + (jsnum list \<times> qagent)" where
  "futureQs ag s m [] = Inr ([], ag)"
| "futureQs ag s m (a # as) =
     (case isValidMove (q_width ag) (q_height ag) s a m of
        Inl e \<Rightarrow> Inl e
      | Inr ok \<Rightarrow>
          (let (v, ag1) = (if ok then getQValue ag s a else (NInf, ag))
           in case futureQs ag1 s m as of
                Inl e \<Rightarrow> Inl e
              | Inr (vs, ag2) \<Rightarrow> Inr (v # vs, ag2)))"

definition updateQValue ::
  "qagent \<Rightarrow> pos \<Rightarrow> nat \<Rightarrow> pos \<Rightarrow> jsnum \<Rightarrow> maze \<Rightarrow> error + qagent" where
  "updateQValue ag oldState action newState reward m =
     (let (currentQ, ag1) = getQValue ag oldState action
      in case futureQs ag1 newState m [0, 1, 2, 3] of
           Inl e \<Rightarrow> Inl e
         | Inr (vs, ag2) \<Rightarrow>
             (let maxFutureQ = js_max vs;
                  newQ = js_add currentQ
                           (js_mul (Fin (q_learningRate ag2))
                              (js_sub (js_add reward (js_mul (Fin (q_gamma ag2)) maxFutureQ))
                                 currentQ))
              in Inr (setQValue ag2 oldState action newQ)))"

definition q_getReward ::
  "qagent \<Rightarrow> pos \<Rightarrow> pos \<Rightarrow> maze \<Rightarrow> bool \<Rightarrow> bool \<Rightarrow> real" where
  "q_getReward ag oldState newState m isGameOver isWin =
     (if isWin then 100
      else if isGameOver then -50
      else let goalX = q_height ag - 2; goalY = q_width ag - 2;
               oldDistance = \<bar>fst oldState - goalX\<bar> + \<bar>snd oldState - goalY\<bar>;
               newDistance = \<bar>fst newState - goalX\<bar> + \<bar>snd newState - goalY\<bar>
           in if newDistance < oldDistance then -1 + 2
              else if newDistance > oldDistance then -1 - 1
              else -1)"

definition q_finishGame :: "qagent \<Rightarrow> bool \<Rightarrow> qagent" where
  "q_finishGame ag isWin =
     (let ag1 = ag\<lparr>q_gamesPlayed := q_gamesPlayed ag + 1\<rparr>;
          ag2 = (if isWin then ag1\<lparr>q_successfulGames := q_successfulGames ag1 + 1\<rparr> else ag1);
          ag3 = ag2\<lparr>q_moveHistory := q_moveHistory ag2 @ [q_moves ag2],
                    q_totalMoves := q_totalMoves ag2 + q_moves ag2\<rparr>
      in if q_epsilon ag3 > q_epsilonMin ag3
         then ag3\<lparr>q_epsilon := q_epsilon ag3 * q_epsilonDecay ag3\<rparr>
         else ag3)"

text \<open>Successive episode ends, each with its outcome.\<close>

fun q_finishGames :: "qagent \<Rightarrow> bool list \<Rightarrow> qagent" where
  "q_finishGames ag [] = ag"
| "q_finishGames ag (isWin # rest) = q_finishGames (q_finishGame ag isWin) rest"

text \<open>
  The 3x3 maze, the smallest the generator builds: its only open cell is the start, which
  is also the goal.
\<close>

definition maze3 :: maze where
  "maze3 = [[1, 1, 1], [1, 0, 1], [1, 1, 1]]"

section \<open>Enhanced agent state and reward (EnhancedAgentState)\<close>

datatype gameMode = Classic | Dynamic | Competitive | Fog | Survival | Procedural

datatype item = HealthPotion real | EnergyPotion real | KeyItem string | OtherItem

record gameEvents =
  foundFood :: bool
  foundKey :: bool
  hitTrap :: bool
  collectibleTaken :: bool
  blockedOtherAgent :: bool
  wasBlocked :: bool
  adaptedToChange :: bool
  caughtByMovingWall :: bool

record agentState =
  gameMode :: gameMode
  width :: int
  height :: int
  position :: pos
  path :: "pos list"
  moves :: int
  health :: real
  maxHealth :: real
  energy :: real
  maxEnergy :: real
  score :: real
  inventory :: "item list"
  keys :: "string set"
  abilities :: "string set"
  powerups :: "string set"
  exploredCells :: "pos set"
  timeAlive :: int
  stepsWithoutProgress :: int
  lastDamageTime :: int
  primaryGoal :: pos

definition getEnergyCost :: "agentState \<Rightarrow> string \<Rightarrow> real" where
  "getEnergyCost st action =
     (let cost = 1;
          cost = (if ''dash'' \<in> abilities st \<and> action = ''dash'' then 3 else cost);
          cost = (if ''jump'' \<in> abilities st \<and> action = ''jump'' then 2 else cost)
      in if ''efficiency'' \<in> powerups st then cost * 0.5 else cost)"

text \<open>The 3x3 frontier count of fog mode, over \<open>i, j = -1, 0, 1\<close>.\<close>

definition unknownNeighbors :: "agentState \<Rightarrow> pos \<Rightarrow> maze \<Rightarrow> nat" where
  "unknownNeighbors st newPosition m =
     length (filter
       (\<lambda>(i, j). let checkX = fst newPosition + i; checkY = snd newPosition + j
                in checkX \<ge> 0 \<and> checkX < int (length m) \<and> checkY \<ge> 0 \<and>
                   checkY < int (length (m ! 0)) \<and> (checkX, checkY) \<notin> exploredCells st)
       (concat (map (\<lambda>i. map (\<lambda>j. (i, j)) [-1, 0, 1]) [-1, 0, 1])))"

text \<open>
  \<open>calculateReward\<close> runs five blocks in sequence, each taking the running reward and
  the state and handing both on: movement and energy cost with the low-resource
  penalties, goal progress, the stagnation penalty, the mode-specific block, and the
  terminal block (win condition, then death conditions).
\<close>

definition costBlock :: "real \<Rightarrow> agentState \<Rightarrow> string \<Rightarrow> real \<times> agentState" where
  "costBlock reward0 st0 action =
     (let reward = reward0 - 0.5;
          energyCost = getEnergyCost st0 action;
          st1 = st0\<lparr>energy := max 0 (energy st0 - energyCost)\<rparr>;
          reward = reward - energyCost * 0.05;
          reward = (if health st1 \<le> 20 then reward - 3 else reward);
          reward = (if energy st1 \<le> 10 then reward - 2 else reward)
      in (reward, st1))"

definition progressBlock :: "real \<Rightarrow> agentState \<Rightarrow> pos \<Rightarrow> real \<times> agentState" where
  "progressBlock reward st1 newPosition =
     (let oldDistance = \<bar>fst (position st1) - fst (primaryGoal st1)\<bar>
                      + \<bar>snd (position st1) - snd (primaryGoal st1)\<bar>;
          newDistance = \<bar>fst newPosition - fst (primaryGoal st1)\<bar>
                      + \<bar>snd newPosition - snd (primaryGoal st1)\<bar>
      in if newDistance < oldDistance
         then (reward + max 3 (15 - real_of_int newDistance * 0.5),
               st1\<lparr>stepsWithoutProgress := 0\<rparr>)
         else if newDistance = oldDistance then (reward - 0.1, st1)
         else (reward - 1, st1\<lparr>stepsWithoutProgress := stepsWithoutProgress st1 + 1\<rparr>))"

definition stagnationBlock :: "real \<Rightarrow> agentState \<Rightarrow> real" where
  "stagnationBlock reward st2 =
     (if stepsWithoutProgress st2 > 15
      then reward - real_of_int (stepsWithoutProgress st2) * 0.5 else reward)"

definition modeBlock ::
  "real \<Rightarrow> agentState \<Rightarrow> pos \<Rightarrow> maze \<Rightarrow> gameEvents \<Rightarrow> real \<times> agentState" where
  "modeBlock reward st newPosition m ev =
     (case gameMode st of
        Fog \<Rightarrow>
          (let reward = (if newPosition \<notin> exploredCells st then reward + 8 else reward)
           in (reward + real (unknownNeighbors st newPosition m) * 1.5, st))
      | Survival \<Rightarrow>
          (let (reward, st) =
                 (if foundFood ev
                  then (reward + 20, st\<lparr>health := min (maxHealth st) (health st + 25)\<rparr>)
                  else (reward, st));
               reward = (if foundKey ev then reward + 15 else reward)
           in if hitTrap ev then (reward - 30, st\<lparr>health := health st - 20\<rparr>)
              else (reward, st))
      | Competitive \<Rightarrow>
          (let reward = (if collectibleTaken ev then reward + 25 else reward);
               reward = (if blockedOtherAgent ev then reward + 10 else reward);
               reward = (if wasBlocked ev then reward - 5 else reward)
           in (reward, st))
      | Dynamic \<Rightarrow>
          (let reward = (if adaptedToChange ev then reward + 8 else reward);
               reward = (if caughtByMovingWall ev then reward - 15 else reward)
           in (reward, st))
      | _ \<Rightarrow> (reward, st))"

definition terminalBlock :: "real \<Rightarrow> agentState \<Rightarrow> pos \<Rightarrow> real" where
  "terminalBlock reward0 st newPosition =
     (let reward =
            (if fst newPosition = fst (primaryGoal st) \<and> snd newPosition = snd (primaryGoal st)
             then (let reward = reward0 + 100;
                       efficiency = max 0 (1000 - real_of_int (moves st)) / 10
                   in reward + efficiency)
             else reward0)
      in if health st \<le> 0 \<or> energy st \<le> 0 then reward - 100 else reward)"

definition calculateReward ::
  "agentState \<Rightarrow> string \<Rightarrow> pos \<Rightarrow> maze \<Rightarrow> gameEvents \<Rightarrow> real \<times> agentState" where
  "calculateReward st0 action newPosition m ev =
     (let reward = 0;
          (reward, st1) = costBlock reward st0 action;
          (reward, st2) = progressBlock reward st1 newPosition;
          reward = stagnationBlock reward st2;
          (reward, st3) = modeBlock reward st2 newPosition m ev;
          reward = terminalBlock reward st3 newPosition
      in (reward, st3))"

section \<open>Dynamic elements (DynamicMazeElements.isBlocked)\<close>

record movingWall =
  mw_position :: pos
  mw_direction :: nat
  mw_speed :: nat
  mw_lastMove :: nat
  mw_length :: nat

record rotatingSection =
  rs_center :: pos
  rs_radius :: int
  rs_rotationSpeed :: nat
  rs_lastRotation :: nat
  rs_angle :: nat

record dynamicElements =
  de_width :: int
  de_height :: int
  de_time :: nat
  movingWalls :: "movingWall list"
  rotatingSections :: "rotatingSection list"
  temporaryWalls :: "pos set"

definition insideArena :: "dynamicElements \<Rightarrow> pos \<Rightarrow> bool" where
  "insideArena d c =
     (fst c > 0 \<and> fst c < de_height d - 1 \<and> snd c > 0 \<and> snd c < de_width d - 1)"

definition getMovingWallCells :: "dynamicElements \<Rightarrow> movingWall \<Rightarrow> pos list" where
  "getMovingWallCells d wall =
     (let x = fst (mw_position wall); y = snd (mw_position wall);
          len = (if mw_length wall = 0 then 2 else mw_length wall);
          dir = mw_direction wall mod 2
      in filter (insideArena d)
           (map (\<lambda>i. (if dir = 1 then x + int i else x, if dir = 0 then y + int i else y))
              [0..<len]))"

definition orientations :: "int \<Rightarrow> (int \<times> int) list list" where
  "orientations radius =
     [[(- radius, 0), (radius, 0), (0, - radius), (0, radius)],
      [(- radius, - radius), (- radius, radius), (radius, - radius), (radius, radius)],
      [(- radius, 0), (radius, 0), (0, - radius), (0, radius)],
      [(- radius, - radius), (- radius, radius), (radius, - radius), (radius, radius)]]"

definition getRotatingSectionCells :: "dynamicElements \<Rightarrow> rotatingSection \<Rightarrow> pos list" where
  "getRotatingSectionCells d section =
     (let cx = fst (rs_center section); cy = snd (rs_center section);
          idx = ((rs_angle section mod 360) div 90) mod 4
      in filter (insideArena d)
           (map (\<lambda>(dx, dy). (cx + dx, cy + dy)) (orientations (rs_radius section) ! idx)))"

definition isBlocked :: "dynamicElements \<Rightarrow> int \<Rightarrow> int \<Rightarrow> bool" where
  "isBlocked d x y =
     (if list_ex (\<lambda>wall. list_ex (\<lambda>c. fst c = x \<and> snd c = y) (getMovingWallCells d wall))
           (movingWalls d) then True
      else if list_ex (\<lambda>section. list_ex (\<lambda>c. fst c = x \<and> snd c = y)
                 (getRotatingSectionCells d section)) (rotatingSections d) then True
      else if (x, y) \<in> temporaryWalls d then True
      else False)"

section \<open>Linear-approximation agent (NeuralMazeAgent)\<close>

datatype dir = Up | Right | Down | Left

datatype naction = Move dir | Wait | Dash dir | Jump dir | UseItem | Rest

text \<open>\<open>this.actions\<close>, in the order of the source; \<open>indexOf\<close> gives -1 for a missing element.\<close>

definition nactions :: "naction list" where
  "nactions =
     [Move Up, Move Right, Move Down, Move Left, Wait,
      Dash Up, Dash Right, Dash Down, Dash Left,
      Jump Up, Jump Right, Jump Down, Jump Left, UseItem, Rest]"

fun indexOf :: "'a list \<Rightarrow> 'a \<Rightarrow> int" where
  "indexOf [] x = -1"
| "indexOf (y # ys) x =
     (if y = x then 0 else (let i = indexOf ys x in if i < 0 then -1 else i + 1))"

fun dirOffset :: "dir \<Rightarrow> int \<times> int" where
  "dirOffset Up = (-1, 0)"
| "dirOffset Right = (0, 1)"
| "dirOffset Down = (1, 0)"
| "dirOffset Left = (0, -1)"

datatype terminal = NotTerminal | Win | Death | Exhaustion | Timeout

record experience =
  ex_state :: "real list"
  ex_action :: int
  ex_reward :: real
  ex_nextState :: "real list"
  ex_terminal :: terminal

record nagent =
  n_width :: int
  n_height :: int
  n_agentState :: agentState
  n_dynamicElements :: dynamicElements
  n_learningRate :: real
  n_epsilon :: real
  n_epsilonDecay :: real
  n_epsilonMin :: real
  n_gamma :: real
  n_batchSize :: nat
  memory :: "experience list"
  memorySize :: int
  weights :: "real list list"
  biases :: "real list"
  n_isTraining :: bool
  lossHistory :: "real list"
  explorationHistory :: "real list"

text \<open>
  The test both \<open>getValidActions\<close> and \<open>performAction\<close> apply to a target cell, without
  the energy conjunct: bounds, static grid, \<open>isBlocked\<close>.
\<close>

definition cellFree :: "nagent \<Rightarrow> maze \<Rightarrow> int \<Rightarrow> int \<Rightarrow> error + bool" where
  "cellFree ag m newX newY =
     (let blockedByDynamic = isBlocked (n_dynamicElements ag) newX newY
      in if newX \<ge> 0 \<and> newX < n_height ag \<and> newY \<ge> 0 \<and> newY < n_width ag
         then (case maze_at m newX newY of
                 Inl e \<Rightarrow> Inl e
               | Inr v \<Rightarrow> Inr (v = Some 0 \<and> \<not> blockedByDynamic))
         else Inr False)"

fun directionActions :: "nagent \<Rightarrow> maze \<Rightarrow> dir list \<Rightarrow> error + naction list" where
  "directionActions ag m [] = Inr []"
| "directionActions ag m (d # ds) =
     (let x = fst (position (n_agentState ag)); y = snd (position (n_agentState ag));
          newX = x + fst (dirOffset d); newY = y + snd (dirOffset d)
      in case cellFree ag m newX newY of
           Inl e \<Rightarrow> Inl e
         | Inr ok \<Rightarrow>
             (let here =
                    (if ok
                     then [Move d]
                          @ (if ''dash'' \<in> abilities (n_agentState ag) \<and>
                                energy (n_agentState ag) \<ge> 3 then [Dash d] else [])
                          @ (if ''jump'' \<in> abilities (n_agentState ag) \<and>
                                energy (n_agentState ag) \<ge> 2 then [Jump d] else [])
                     else [])
              in case directionActions ag m ds of
                   Inl e \<Rightarrow> Inl e
                 | Inr rest \<Rightarrow> Inr (here @ rest)))"

definition getValidActions :: "nagent \<Rightarrow> maze \<Rightarrow> error + naction list" where
  "getValidActions ag m =
     (case directionActions ag m [Up, Right, Down, Left] of
        Inl e \<Rightarrow> Inl e
      | Inr validActions \<Rightarrow>
          Inr (validActions @ [Wait, Rest]
               @ (if length (inventory (n_agentState ag)) > 0 then [UseItem] else [])))"

definition useItem :: "agentState \<Rightarrow> agentState" where
  "useItem st =
     (if length (inventory st) > 0
      then (let it = last (inventory st); st1 = st\<lparr>inventory := butlast (inventory st)\<rparr>
            in case it of
                 HealthPotion v \<Rightarrow> st1\<lparr>health := min (maxHealth st1) (health st1 + v)\<rparr>
               | EnergyPotion v \<Rightarrow> st1\<lparr>energy := min (maxEnergy st1) (energy st1 + v)\<rparr>
               | KeyItem k \<Rightarrow> st1\<lparr>keys := insert k (keys st1)\<rparr>
               | OtherItem \<Rightarrow> st1)
      else st)"

text \<open>
  \<open>action.split("_")\<close> gives a direction part for move, dash, jump and also for
  \<open>use_item\<close> (the part \<open>item\<close>, which is no key of \<open>directions\<close>, so the offset is
  \<open>[0, 0]\<close> and no case of the switch applies); \<open>wait\<close> and \<open>rest\<close> have none. The
  result is the target cell and the energy cost.
\<close>

fun actionTarget :: "pos \<Rightarrow> naction \<Rightarrow> int \<times> int \<times> real" where
  "actionTarget (x, y) (Move d) = (x + fst (dirOffset d), y + snd (dirOffset d), 1)"
| "actionTarget (x, y) (Dash d) = (x + fst (dirOffset d) * 2, y + snd (dirOffset d) * 2, 3)"
| "actionTarget (x, y) (Jump d) = (x + fst (dirOffset d), y + snd (dirOffset d), 2)"
| "actionTarget (x, y) _ = (x, y, 1)"

record moveResult =
  success :: bool
  mr_position :: pos

definition performAction :: "nagent \<Rightarrow> naction \<Rightarrow> maze \<Rightarrow> error + (moveResult \<times> nagent)" where
  "performAction ag action m =
     (let st = n_agentState ag;
          (newX, newY, energyCost) = actionTarget (position st) action
      in case cellFree ag m newX newY of
           Inl e \<Rightarrow> Inl e
         | Inr free \<Rightarrow>
             if free \<and> energy st \<ge> energyCost
             then Inr (\<lparr>success = True, mr_position = (newX, newY)\<rparr>,
                       ag\<lparr>n_agentState := st\<lparr>position := (newX, newY),
                                               path := path st @ [(newX, newY)],
                                               energy := max 0 (energy st - energyCost)\<rparr>\<rparr>)
             else (let st' =
                         (case action of
                            Wait \<Rightarrow> st\<lparr>energy := min (maxEnergy st) (energy st + 0.5)\<rparr>
                          | Rest \<Rightarrow> st\<lparr>energy := min (maxEnergy st) (energy st + 5)\<rparr>
                          | UseItem \<Rightarrow> useItem st
                          | _ \<Rightarrow> st)
                   in Inr (\<lparr>success = False, mr_position = position st\<rparr>,
                           ag\<lparr>n_agentState := st'\<rparr>)))"

definition storeExperience ::
  "nagent \<Rightarrow> real list \<Rightarrow> naction \<Rightarrow> real \<Rightarrow> real list \<Rightarrow> terminal \<Rightarrow> nagent" where
  "storeExperience ag state action reward nextState term =
     (let experience = \<lparr>ex_state = state, ex_action = indexOf nactions action,
                        ex_reward = reward, ex_nextState = nextState, ex_terminal = term\<rparr>;
          mem = memory ag @ [experience]
      in ag\<lparr>memory := (if int (length mem) > memorySize ag then tl mem else mem)\<rparr>)"









text \<open>
  The record \<open>storeExperience\<close> builds from its arguments, and a sequence of insertions.
\<close>

definition experienceOf ::
  "real list \<times> naction \<times> real \<times> real list \<times> terminal \<Rightarrow> experience" where
  "experienceOf x =
     (case x of (state, action, reward, nextState, term) \<Rightarrow>
        \<lparr>ex_state = state, ex_action = indexOf nactions action,
         ex_reward = reward, ex_nextState = nextState, ex_terminal = term\<rparr>)"

fun storeAll ::
  "nagent \<Rightarrow> (real list \<times> naction \<times> real \<times> real list \<times> terminal) list \<Rightarrow> nagent" where
  "storeAll ag [] = ag"
| "storeAll ag ((state, action, reward, nextState, term) # xs) =
     storeAll (storeExperience ag state action reward nextState term) xs"

text \<open>
  The state the constructor of \<open>EnhancedAgentState\<close> leaves, the dynamic elements of a
  mode that creates none, and a linear agent on a 5x5 classic maze with a replay capacity
  of two records and a zero-initialised head, used as a concrete input below.
\<close>

definition EnhancedAgentState :: "gameMode \<Rightarrow> int \<Rightarrow> int \<Rightarrow> agentState" where
  "EnhancedAgentState mode mazeWidth mazeHeight =
     \<lparr>gameMode = mode, width = mazeWidth, height = mazeHeight, position = (1, 1),
      path = [(1, 1)], moves = 0, health = 100, maxHealth = 100, energy = 100,
      maxEnergy = 100, score = 0, inventory = [], keys = {}, abilities = {''move''},
      powerups = {}, exploredCells = {}, timeAlive = 0, stepsWithoutProgress = 0,
      lastDamageTime = 0, primaryGoal = (mazeHeight - 2, mazeWidth - 2)\<rparr>"

definition noElements :: "int \<Rightarrow> int \<Rightarrow> dynamicElements" where
  "noElements w h =
     \<lparr>de_width = w, de_height = h, de_time = 0, movingWalls = [], rotatingSections = [],
      temporaryWalls = {}\<rparr>"

definition exampleAgent :: nagent where
  "exampleAgent =
     \<lparr>n_width = 5, n_height = 5, n_agentState = EnhancedAgentState Classic 5 5,
      n_dynamicElements = noElements 5 5, n_learningRate = 0.001, n_epsilon = 0.7,
      n_epsilonDecay = 0.995, n_epsilonMin = 0.01, n_gamma = 0.99, n_batchSize = 32,
      memory = [], memorySize = 2, weights = replicate 15 (replicate 50 0),
      biases = replicate 15 0, n_isTraining = False, lossHistory = [],
      explorationHistory = []\<rparr>"

text \<open>The cell a move in direction \<open>d\<close> targets from the agent's position.\<close>

definition moveTarget :: "nagent \<Rightarrow> dir \<Rightarrow> pos" where
  "moveTarget ag d =
     (fst (position (n_agentState ag)) + fst (dirOffset d),
      snd (position (n_agentState ag)) + snd (dirOffset d))"

text \<open>
  A 5x5 maze as the generator builds them (start (1,1), goal (3,3)), the example agent with
  its energy run down to 0.5, and a moving wall lying on the cells (1,2) and (1,3).
\<close>

definition maze5 :: maze where
  "maze5 = [[1, 1, 1, 1, 1], [1, 0, 0, 0, 1], [1, 1, 1, 0, 1], [1, 0, 0, 0, 1], [1, 1, 1, 1, 1]]"

definition tiredAgent :: nagent where
  "tiredAgent = exampleAgent\<lparr>n_agentState := (EnhancedAgentState Classic 5 5)\<lparr>energy := 0.5\<rparr>\<rparr>"

definition wallElements :: dynamicElements where
  "wallElements =
     (noElements 5 5)\<lparr>movingWalls :=
        [\<lparr>mw_position = (1, 2), mw_direction = 0, mw_speed = 3, mw_lastMove = 0,
          mw_length = 2\<rparr>]\<rparr>"

text \<open>
  Concrete transitions, each as \<open>executeAction\<close> hands it to \<open>calculateReward\<close>:
  the move is already made, so the position is the new position, the move counter does
  not count the step yet, and the energy has been charged once. On the 5x5 maze: no
  events; the agent on the goal (3,3) after its 50th move with 1 energy left; the agent
  on the goal after its 4th move; the agent on (1,2) with 1 energy left. On a 33x33
  maze: the agent on the goal (31,31) with 1000 moves counted.
\<close>

definition noEvents :: gameEvents where
  "noEvents =
     \<lparr>foundFood = False, foundKey = False, hitTrap = False, collectibleTaken = False,
      blockedOtherAgent = False, wasBlocked = False, adaptedToChange = False,
      caughtByMovingWall = False\<rparr>"

definition lastStep :: agentState where
  "lastStep =
     (EnhancedAgentState Classic 5 5)\<lparr>position := (3, 3),
        path := [(1, 1), (1, 2), (1, 3), (2, 3), (3, 3)], moves := 49, energy := 1\<rparr>"

definition winStep :: agentState where
  "winStep =
     (EnhancedAgentState Classic 5 5)\<lparr>position := (3, 3),
        path := [(1, 1), (1, 2), (1, 3), (2, 3), (3, 3)], moves := 3, energy := 93\<rparr>"

definition dyingStep :: agentState where
  "dyingStep =
     (EnhancedAgentState Classic 5 5)\<lparr>position := (1, 2), path := [(1, 1), (1, 2)],
        moves := 49, energy := 1\<rparr>"

definition lateWin :: agentState where
  "lateWin =
     (EnhancedAgentState Classic 33 33)\<lparr>position := (31, 31), moves := 1000, energy := 50\<rparr>"










section \<open>Hybrid agent (HybridMazeAgent)\<close>

datatype strategy = Pathfinding | QLearning

record hagent =
  h_width :: int
  h_height :: int
  mazeSize :: int
  isLargeMaze :: bool
  h_epsilon :: real
  h_epsilonStart :: real
  h_epsilonDecay :: real
  h_epsilonMin :: real
  h_gamma :: real
  h_learningRate :: real
  useMCTS :: bool
  h_qTable :: "int \<rightharpoonup> (nat \<rightharpoonup> real)"
  knownSolution :: "pos list option"
  solutionSteps :: nat
  h_position :: pos
  h_path :: "pos list"
  h_moves :: int
  visited :: "pos set"
  h_isTraining :: bool
  currentStrategy :: strategy
  gamesPlayed :: int
  totalMoves :: int
  moveHistory :: "int list"
  successfulGames :: int
  prevPosition :: "pos option"
  lastAction :: int

definition h_reset :: "hagent \<Rightarrow> hagent" where
  "h_reset ag =
     ag\<lparr>h_position := (1, 1), h_path := [(1, 1)], h_moves := 0, solutionSteps := 0,
        knownSolution := None, visited := {(1, 1)}, prevPosition := None, lastAction := -1\<rparr>"

definition HybridMazeAgent :: "int \<Rightarrow> int \<Rightarrow> options \<Rightarrow> hagent" where
  "HybridMazeAgent mazeWidth mazeHeight opts =
     (let size = mazeWidth * mazeHeight;
          large = (size > 1000);
          eps = orDefault (opt_epsilon opts) (if large then 0.1 else 0.6);
          defaultDecay = (if large then 0.995 else 0.98);
          decay = orDefault (opt_epsilonDecay opts) defaultDecay
      in h_reset
           \<lparr>h_width = mazeWidth, h_height = mazeHeight, mazeSize = size, isLargeMaze = large,
            h_epsilon = eps, h_epsilonStart = eps,
            h_epsilonDecay = min 0.9999 (max 0.9 decay),
            h_epsilonMin = min eps (case opt_epsilonMin opts of None \<Rightarrow> 0.01 | Some v \<Rightarrow> v),
            h_gamma = orDefault (opt_gamma opts) 0.95,
            h_learningRate = orDefault (opt_learningRate opts) 0.1,
            useMCTS = (case opt_useMCTS opts of None \<Rightarrow> False | Some b \<Rightarrow> b),
            h_qTable = Map.empty, knownSolution = None, solutionSteps = 0,
            h_position = (1, 1), h_path = [(1, 1)], h_moves = 0, visited = {(1, 1)},
            h_isTraining = False,
            currentStrategy = (if large then Pathfinding else QLearning),
            gamesPlayed = 0, totalMoves = 0, moveHistory = [], successfulGames = 0,
            prevPosition = None, lastAction = -1\<rparr>)"

definition selectStrategy :: "hagent \<Rightarrow> maze \<Rightarrow> strategy" where
  "selectStrategy ag m =
     (if isLargeMaze ag then Pathfinding
      else let successRate =
                 (if gamesPlayed ag > 0
                  then real_of_int (successfulGames ag) / real_of_int (gamesPlayed ag) else 0)
           in if gamesPlayed ag > 20 \<and> successRate > 0.8 \<and> h_epsilon ag < 0.1
              then Pathfinding else QLearning)"

record hmove =
  hm_position :: pos
  hm_action :: "nat option"
  hm_moves :: int
  isValid :: bool
  hm_strategy :: strategy

text \<open>
  The Path Oracle \<open>fastSolver.solveMazeAStar(maze, start)\<close> is a parameter \<open>solve\<close>:
  a route as a list of cells, or \<open>None\<close> for the no-path signal \<open>null\<close>.
\<close>

definition pathfindingMove ::
  "(maze \<Rightarrow> pos \<Rightarrow> pos list option) \<Rightarrow> hagent \<Rightarrow> maze \<Rightarrow> hmove \<times> hagent" where
  "pathfindingMove solve ag0 m =
     (let ag = (if knownSolution ag0 = None \<or> solutionSteps ag0 = 0
                then ag0\<lparr>knownSolution := solve m (h_position ag0), solutionSteps := 0\<rparr>
                else ag0)
      in case knownSolution ag of
           Some sol \<Rightarrow>
             if int (solutionSteps ag) < int (length sol) - 1
             then (let steps = solutionSteps ag + 1; nextPos = sol ! steps;
                       ag' = ag\<lparr>solutionSteps := steps, h_position := nextPos,
                                h_path := h_path ag @ [nextPos], h_moves := h_moves ag + 1\<rparr>
                   in (\<lparr>hm_position = nextPos, hm_action = None, hm_moves = h_moves ag',
                        isValid = True, hm_strategy = Pathfinding\<rparr>, ag'))
             else (\<lparr>hm_position = h_position ag, hm_action = None, hm_moves = h_moves ag,
                    isValid = False, hm_strategy = Pathfinding\<rparr>, ag)
         | None \<Rightarrow>
             (\<lparr>hm_position = h_position ag, hm_action = None, hm_moves = h_moves ag,
               isValid = False, hm_strategy = Pathfinding\<rparr>, ag))"

text \<open>
  \<open>qLearningMove\<close> after \<open>chooseAction\<close> has returned: the chosen action (random when
  exploring, or the planner's) is the parameter \<open>action\<close>.
\<close>

definition qLearningMove :: "nat \<Rightarrow> hagent \<Rightarrow> maze \<Rightarrow> error + (hmove \<times> hagent)" where
  "qLearningMove action ag m =
     (case isValidMove (h_width ag) (h_height ag) (h_position ag) action m of
        Inl e \<Rightarrow> Inl e
      | Inr ok \<Rightarrow>
          if ok
          then (let newPosition = (fst (h_position ag) + fst (actions ! action),
                                   snd (h_position ag) + snd (actions ! action));
                    ag' = ag\<lparr>prevPosition := Some (h_position ag), h_position := newPosition,
                             h_path := h_path ag @ [newPosition], h_moves := h_moves ag + 1,
                             visited := insert newPosition (visited ag),
                             lastAction := int action\<rparr>
                in Inr (\<lparr>hm_position = newPosition, hm_action = Some action,
                         hm_moves = h_moves ag', isValid = True, hm_strategy = QLearning\<rparr>, ag'))
          else Inr (\<lparr>hm_position = h_position ag, hm_action = Some action,
                     hm_moves = h_moves ag, isValid = False, hm_strategy = QLearning\<rparr>, ag))"

definition move ::
  "(maze \<Rightarrow> pos \<Rightarrow> pos list option) \<Rightarrow> nat \<Rightarrow> hagent \<Rightarrow> maze \<Rightarrow> error + (hmove \<times> hagent)" where
  "move solve action ag0 m =
     (let ag = ag0\<lparr>currentStrategy := selectStrategy ag0 m\<rparr>
      in if currentStrategy ag = Pathfinding then Inr (pathfindingMove solve ag m)
         else qLearningMove action ag m)"

text \<open>\<open>(x << 16) | y\<close> on 32-bit integers.\<close>

definition getStateKey :: "int \<Rightarrow> int \<Rightarrow> int" where
  "getStateKey x y = sint (push_bit 16 (word_of_int x :: 32 word) OR word_of_int y)"

definition h_getQValue :: "hagent \<Rightarrow> pos \<Rightarrow> nat \<Rightarrow> real" where
  "h_getQValue ag s a =
     (case h_qTable ag (getStateKey (fst s) (snd s)) of
        None \<Rightarrow> 0
      | Some qValues \<Rightarrow> (case qValues a of None \<Rightarrow> 0 | Some v \<Rightarrow> v))"

definition h_setQValue :: "hagent \<Rightarrow> pos \<Rightarrow> nat \<Rightarrow> real \<Rightarrow> hagent" where
  "h_setQValue ag s a v =
     (let key = getStateKey (fst s) (snd s);
          qValues = (case h_qTable ag key of None \<Rightarrow> Map.empty | Some q \<Rightarrow> q)
      in ag\<lparr>h_qTable := (h_qTable ag)(key \<mapsto> qValues(a \<mapsto> v))\<rparr>)"

text \<open>The loop of \<open>updateQValue\<close> over the four actions; \<open>None\<close> is \<open>-Infinity\<close>.\<close>

fun h_maxFutureQ :: "hagent \<Rightarrow> pos \<Rightarrow> maze \<Rightarrow> real option \<Rightarrow> nat list \<Rightarrow> error + real option" where
  "h_maxFutureQ ag s m acc [] = Inr acc"
| "h_maxFutureQ ag s m acc (a # as) =
     (case isValidMove (h_width ag) (h_height ag) s a m of
        Inl e \<Rightarrow> Inl e
      | Inr ok \<Rightarrow>
          h_maxFutureQ ag s m
            (if ok then (case acc of None \<Rightarrow> Some (h_getQValue ag s a)
                                   | Some v \<Rightarrow> Some (max v (h_getQValue ag s a)))
             else acc) as)"

definition h_updateQValue ::
  "hagent \<Rightarrow> pos \<Rightarrow> nat \<Rightarrow> pos \<Rightarrow> real \<Rightarrow> maze \<Rightarrow> error + hagent" where
  "h_updateQValue ag oldState action newState reward m =
     (if currentStrategy ag \<noteq> QLearning then Inr ag
      else let currentQ = h_getQValue ag oldState action
           in case h_maxFutureQ ag newState m None [0, 1, 2, 3] of
                Inl e \<Rightarrow> Inl e
              | Inr mx \<Rightarrow>
                  (let maxFutureQ = (case mx of None \<Rightarrow> 0 | Some v \<Rightarrow> v);
                       newQ = currentQ
                              + h_learningRate ag * (reward + h_gamma ag * maxFutureQ - currentQ)
                   in Inr (h_setQValue ag oldState action newQ)))"

definition h_getReward :: "hagent \<Rightarrow> pos \<Rightarrow> pos \<Rightarrow> maze \<Rightarrow> bool \<Rightarrow> bool \<Rightarrow> real" where
  "h_getReward ag oldState newState m isGameOver isWin =
     (if isWin then 100
      else if isGameOver then -50
      else let reward = - 0.5;
               goalX = h_height ag - 2; goalY = h_width ag - 2;
               oldDistance = \<bar>fst oldState - goalX\<bar> + \<bar>snd oldState - goalY\<bar>;
               newDistance = \<bar>fst newState - goalX\<bar> + \<bar>snd newState - goalY\<bar>;
               reward = (if newDistance < oldDistance then reward + 2
                         else if newDistance > oldDistance then reward - 2
                         else reward - 0.5)
           in if newState \<notin> visited ag then reward + 1.5 else reward)"

text \<open>\<open>trainStep\<close> returns nothing (\<open>None\<close>) when the agent is not training.\<close>

definition h_trainStep ::
  "hagent \<Rightarrow> maze \<Rightarrow> pos option \<Rightarrow> nat option \<Rightarrow> error + ((bool \<times> bool) option \<times> hagent)" where
  "h_trainStep ag m previousState action =
     (if \<not> h_isTraining ag then Inr (None, ag)
      else let goalX = h_height ag - 2; goalY = h_width ag - 2;
               isWin = (fst (h_position ag) = goalX \<and> snd (h_position ag) = goalY);
               maxMoves = (if isLargeMaze ag then mazeSize ag
                           else if h_width ag \<le> 31
                           then max 100 ((h_width ag * h_height ag) div 2)
                           else max (h_width ag * h_height ag) 150);
               isGameOver = (h_moves ag > maxMoves \<or> isWin)
           in case (previousState, action) of
                (Some prev, Some a) \<Rightarrow>
                  if currentStrategy ag = QLearning
                  then (case h_updateQValue ag prev a (h_position ag)
                               (h_getReward ag prev (h_position ag) m isGameOver isWin) m of
                          Inl e \<Rightarrow> Inl e
                        | Inr ag' \<Rightarrow> Inr (Some (isWin, isGameOver), ag'))
                  else Inr (Some (isWin, isGameOver), ag)
              | _ \<Rightarrow> Inr (Some (isWin, isGameOver), ag))"

definition h_finishGame :: "hagent \<Rightarrow> bool \<Rightarrow> hagent" where
  "h_finishGame ag isWin =
     (let ag1 = ag\<lparr>gamesPlayed := gamesPlayed ag + 1\<rparr>;
          ag2 = (if isWin then ag1\<lparr>successfulGames := successfulGames ag1 + 1\<rparr> else ag1);
          ag3 = ag2\<lparr>moveHistory := moveHistory ag2 @ [h_moves ag2],
                    totalMoves := totalMoves ag2 + h_moves ag2\<rparr>;
          ag4 = (if h_epsilon ag3 > h_epsilonMin ag3
                 then ag3\<lparr>h_epsilon := h_epsilon ag3
                                         * (if isLargeMaze ag3 then 0.99 else h_epsilonDecay ag3)\<rparr>
                 else ag3)
      in ag4\<lparr>knownSolution := None, solutionSteps := 0\<rparr>)"

text \<open>
  The states an agent created as \<open>ag0\<close> can be in: the driver calls \<open>move\<close>,
  \<open>trainStep\<close>, \<open>updateQValue\<close>, \<open>finishGame\<close>, \<open>reset\<close> and starts or stops
  training, in any order.
\<close>

inductive reachable ::
  "(maze \<Rightarrow> pos \<Rightarrow> pos list option) \<Rightarrow> maze \<Rightarrow> hagent \<Rightarrow> hagent \<Rightarrow> bool"
  for solve :: "maze \<Rightarrow> pos \<Rightarrow> pos list option" and m :: maze and ag0 :: hagent where
  r_start: "reachable solve m ag0 ag0"
| r_move: "reachable solve m ag0 ag \<Longrightarrow> move solve a ag m = Inr (res, ag') \<Longrightarrow>
     reachable solve m ag0 ag'"
| r_train: "reachable solve m ag0 ag \<Longrightarrow> h_trainStep ag m p act = Inr (out, ag') \<Longrightarrow>
     reachable solve m ag0 ag'"
| r_update: "reachable solve m ag0 ag \<Longrightarrow> h_updateQValue ag s act s' r m = Inr ag' \<Longrightarrow>
     reachable solve m ag0 ag'"
| r_finish: "reachable solve m ag0 ag \<Longrightarrow> reachable solve m ag0 (h_finishGame ag isWin)"
| r_reset: "reachable solve m ag0 ag \<Longrightarrow> reachable solve m ag0 (h_reset ag)"
| r_training: "reachable solve m ag0 ag \<Longrightarrow> reachable solve m ag0 (ag\<lparr>h_isTraining := b\<rparr>)"

text \<open>
  A 33x33 maze (1089 cells) with one corridor along row 1 and down column 31, the route
  through it, and an oracle that returns this route from the start.
\<close>

definition bigMaze :: maze where
  "bigMaze =
     map (\<lambda>i. map (\<lambda>j. if (i = 1 \<and> 1 \<le> j \<and> j \<le> 31) \<or> (j = 31 \<and> 1 \<le> i \<and> i \<le> 31)
                        then 0 else 1) [0..32]) [0..32]"

definition exampleRoute :: "pos list" where
  "exampleRoute = map (\<lambda>j. (1, j)) [1..31] @ map (\<lambda>i. (i, 31)) [2..31]"

definition exampleOracle :: "maze \<Rightarrow> pos \<Rightarrow> pos list option" where
  "exampleOracle m s = (if s = (1, 1) then Some exampleRoute else None)"

section \<open>Exploration scheduler (AutoEpsilonScheduler)\<close>

record episode =
  ep_win :: bool
  ep_moves :: real
  ep_reward :: real

record scheduler =
  s_gameMode :: gameMode
  window :: nat
  history :: "episode list"
  targetEnd :: real
  minDecay :: real
  maxDecay :: real

text \<open>
  The part of an agent the scheduler reads and writes. The three agent classes keep these
  fields as numbers at all times, so the \<open>typeof ... === "number"\<close> guards take their
  first branch.
\<close>

record tuned =
  epsilon :: real
  epsilonMin :: real
  epsilonDecay :: real

definition getTargetEnd :: "gameMode \<Rightarrow> real" where
  "getTargetEnd mode =
     (case mode of
        Fog \<Rightarrow> 0.1
      | Dynamic \<Rightarrow> 0.08
      | Competitive \<Rightarrow> 0.08
      | Survival \<Rightarrow> 0.08
      | _ \<Rightarrow> 0.05)"

definition AutoEpsilonScheduler :: "gameMode \<Rightarrow> scheduler" where
  "AutoEpsilonScheduler mode =
     \<lparr>s_gameMode = mode, window = 20, history = [], targetEnd = getTargetEnd mode,
      minDecay = 0.9, maxDecay = 0.9999\<rparr>"

definition recordEpisode :: "scheduler \<Rightarrow> episode \<Rightarrow> scheduler" where
  "recordEpisode sch ep =
     (let h = history sch @ [ep]
      in sch\<lparr>history := (if length h > window sch then tl h else h)\<rparr>)"

record stats =
  st_success :: real
  medianMoves :: real
  avgReward :: real
  st_n :: nat

definition stats :: "scheduler \<Rightarrow> stats" where
  "stats sch =
     (let h = history sch;
          n = (if length h = 0 then 1 else length h);
          wins = length (filter ep_win h);
          movesArr = filter (\<lambda>m. m > 0) (map ep_moves h)
      in \<lparr>st_success = real wins / real n,
          medianMoves = (if length movesArr \<noteq> 0
                         then sort movesArr ! (length movesArr div 2) else 0),
          avgReward = foldl (\<lambda>a x. a + ep_reward x) 0 h / real n,
          st_n = n\<rparr>)"

definition clampDecay :: "scheduler \<Rightarrow> real \<Rightarrow> real" where
  "clampDecay sch d = min (maxDecay sch) (max (minDecay sch) d)"

definition onEpisodeEnd :: "scheduler \<Rightarrow> tuned \<Rightarrow> episode \<Rightarrow> scheduler \<times> tuned" where
  "onEpisodeEnd sch0 agent epSummary =
     (let sch = recordEpisode sch0 epSummary;
          success = st_success (stats sch);
          eps = epsilon agent;
          epsMin = epsilonMin agent;
          decay = epsilonDecay agent;
          (decay, agent) =
             (if success \<ge> 0.8 \<and> real (length (history sch)) \<ge> real (window sch) / 2
              then (clampDecay sch (decay * 0.97), agent\<lparr>epsilon := max epsMin (eps * 0.9)\<rparr>)
              else (decay, agent));
          (decay, agent) =
             (if success \<le> 0.1 \<and> real (length (history sch)) \<ge> real (window sch) / 2
              then (let bump = (if s_gameMode sch = Fog then 0.05 else 0.1);
                        agent = agent\<lparr>epsilon := min 0.95 (eps + bump)\<rparr>
                    in (clampDecay sch ((decay + 1) / 2), agent))
              else (decay, agent));
          agent = agent\<lparr>epsilonMin := min (epsilon agent) (max 0.01 (targetEnd sch))\<rparr>;
          agent = agent\<lparr>epsilonDecay := clampDecay sch decay\<rparr>
      in (sch, agent))"

text \<open>A run of episode ends, each handled by \<open>onEpisodeEnd\<close> in turn.\<close>

fun onEpisodes :: "scheduler \<Rightarrow> tuned \<Rightarrow> episode list \<Rightarrow> scheduler \<times> tuned" where
  "onEpisodes sch agent [] = (sch, agent)"
| "onEpisodes sch agent (ep # eps) =
     (let (sch', agent') = onEpisodeEnd sch agent ep in onEpisodes sch' agent' eps)"

text \<open>
  The condition of the low-success rule of \<open>onEpisodeEnd\<close>, read on the scheduler after
  the episode is recorded; and a run of episode ends at none of which it holds.
\<close>

definition lowSuccess :: "scheduler \<Rightarrow> bool" where
  "lowSuccess sch =
     (st_success (stats sch) \<le> 0.1 \<and> real (length (history sch)) \<ge> real (window sch) / 2)"

fun neverLow :: "scheduler \<Rightarrow> episode list \<Rightarrow> bool" where
  "neverLow sch [] = True"
| "neverLow sch (ep # eps) =
     (\<not> lowSuccess (recordEpisode sch ep) \<and> neverLow (recordEpisode sch ep) eps)"

text \<open>
  Example data: a lost and a won episode; the scheduler of a classic maze whose window of
  20 holds \<open>k\<close> losses followed by \<open>j\<close> wins; an agent whose epsilon is back at its
  configured start 0.05 (as after \<open>resetStats\<close>); and an agent in mid-training.
\<close>

definition lossEp :: episode where "lossEp = \<lparr>ep_win = False, ep_moves = 60, ep_reward = - 50\<rparr>"
definition winEp :: episode where "winEp = \<lparr>ep_win = True, ep_moves = 8, ep_reward = 100\<rparr>"

definition sched :: "nat \<Rightarrow> nat \<Rightarrow> scheduler" where
  "sched k j = (AutoEpsilonScheduler Classic)\<lparr>history := replicate k lossEp @ replicate j winEp\<rparr>"

definition resetAgent :: tuned where
  "resetAgent = \<lparr>epsilon = 0.05, epsilonMin = 0.05, epsilonDecay = 0.9999\<rparr>"

definition learner :: tuned where
  "learner = \<lparr>epsilon = 0.6, epsilonMin = 0.01, epsilonDecay = 0.97\<rparr>"

section \<open>Planner (mctsPlan)\<close>

text \<open>
  The functions handed to the planner close over the maze. The key of a state
  \<open>[x, y]\<close> is the string \<open>x,y\<close>, injective on integer pairs, and the key of a state
  and an action adds \<open>|a\<close>; the maps are indexed by the pairs themselves.
\<close>

record planner =
  validActionsFn :: "pos \<Rightarrow> nat list"
  stepFn :: "pos \<Rightarrow> nat \<Rightarrow> pos \<times> real \<times> bool"
  evaluateFn :: "pos \<Rightarrow> real"
  maxDepth :: nat
  ucb_c :: real

record tables =
  tN :: "pos \<rightharpoonup> nat"
  tNa :: "pos \<times> nat \<rightharpoonup> nat"
  tQ :: "pos \<times> nat \<rightharpoonup> real"

definition getNa :: "tables \<Rightarrow> pos \<Rightarrow> nat \<Rightarrow> nat" where
  "getNa t s a = (case tNa t (s, a) of None \<Rightarrow> 0 | Some n \<Rightarrow> n)"

definition getQ :: "tables \<Rightarrow> pos \<Rightarrow> nat \<Rightarrow> real" where
  "getQ t s a = (case tQ t (s, a) of None \<Rightarrow> 0 | Some q \<Rightarrow> q)"

definition addStats :: "tables \<Rightarrow> pos \<Rightarrow> nat \<Rightarrow> real \<Rightarrow> tables" where
  "addStats t s a v =
     t\<lparr>tNa := (tNa t)((s, a) \<mapsto> getNa t s a + 1),
       tQ := (tQ t)((s, a) \<mapsto> getQ t s a + v),
       tN := (tN t)(s \<mapsto> (case tN t s of None \<Rightarrow> 0 | Some n \<Rightarrow> n) + 1)\<rparr>"

text \<open>
  \<open>actions[(Math.random() * actions.length) | 0]\<close>. \<open>Math.random()\<close> lies in \<open>[0, 1)\<close>, which
  keeps the index in range; for a stream value outside that interval the index is
  clamped to the last element.
\<close>

definition randomChoice :: "real \<Rightarrow> nat list \<Rightarrow> nat" where
  "randomChoice r acts = acts ! min (length acts - 1) (nat \<lfloor>r * real (length acts)\<rfloor>)"

function rollout :: "planner \<Rightarrow> (nat \<Rightarrow> real) \<Rightarrow> nat \<Rightarrow> pos \<Rightarrow> nat \<Rightarrow> real \<times> nat" where
  "rollout P rnd k current d =
     (if d < maxDepth P
      then (let acts = validActionsFn P current
            in if acts = [] then (evaluateFn P current, k)
               else (let a = randomChoice (rnd k) acts;
                         (nextState, reward, term) = stepFn P current a
                     in if term then (reward, k + 1)
                        else rollout P rnd (k + 1) nextState (d + 1)))
      else (evaluateFn P current, k))"
  by pat_completeness auto
termination
  by (relation "measure (\<lambda>(P, rnd, k, current, d). maxDepth P - d)") auto

text \<open>
  The UCB1 choice among the valid actions of a visited state; \<open>bestScore\<close> starts at
  \<open>-Infinity\<close> (\<open>None\<close>).
\<close>

fun selectUCB ::
  "planner \<Rightarrow> tables \<Rightarrow> pos \<Rightarrow> real \<Rightarrow> nat \<times> real option \<Rightarrow> nat list \<Rightarrow> nat \<times> real option" where
  "selectUCB P t s tot best [] = best"
| "selectUCB P t s tot (bestA, bestScore) (a # as) =
     (let q = getQ t s a; na = getNa t s a;
          mean = (if na > 0 then q / real na else 0);
          ucb = mean + ucb_c P * sqrt (ln (tot + 1) / (1 + real na))
      in selectUCB P t s tot
           (if (case bestScore of None \<Rightarrow> True | Some b \<Rightarrow> ucb > b)
            then (a, Some ucb) else (bestA, bestScore)) as)"

function simulate ::
  "planner \<Rightarrow> (nat \<Rightarrow> real) \<Rightarrow> tables \<Rightarrow> nat \<Rightarrow> pos \<Rightarrow> nat \<Rightarrow> real \<times> tables \<times> nat" where
  "simulate P rnd t k s depth =
     (if depth \<ge> maxDepth P then (evaluateFn P s, t, k)
      else let acts = validActionsFn P s
           in if acts = [] then (evaluateFn P s, t, k)
              else if tN t s = None
              then (let t1 = t\<lparr>tN := (tN t)(s \<mapsto> 0)\<rparr>;
                        a = randomChoice (rnd k) acts;
                        (nextState, reward, term) = stepFn P s a;
                        (leafV, k1) = (if term then (reward, k + 1)
                                       else rollout P rnd (k + 1) nextState (depth + 1))
                    in (leafV, addStats t1 s a leafV, k1))
              else (let tot = real (the (tN t s)) + 1 / 10 ^ 9;
                        bestA = fst (selectUCB P t s tot (acts ! 0, None) acts);
                        (nextState, reward, term) = stepFn P s bestA
                    in if term then (reward, addStats t s bestA reward, k)
                       else (let (v, t2, k2) = simulate P rnd t k nextState (depth + 1)
                             in (v, addStats t2 s bestA v, k2))))"
  by pat_completeness auto
termination
  by (relation "measure (\<lambda>(P, rnd, t, k, s, depth). maxDepth P - depth)") auto

text \<open>
  The loop \<open>while (performance.now() < deadline) simulate(state, 0)\<close>: the clock decides
  how many passes complete before the deadline; that number is the parameter \<open>passes\<close>.
\<close>

fun simulations ::
  "planner \<Rightarrow> (nat \<Rightarrow> real) \<Rightarrow> tables \<Rightarrow> nat \<Rightarrow> pos \<Rightarrow> nat \<Rightarrow> tables \<times> nat" where
  "simulations P rnd t k s 0 = (t, k)"
| "simulations P rnd t k s (Suc passes) =
     (let (v, t', k') = simulate P rnd t k s 0 in simulations P rnd t' k' s passes)"

fun pickRoot :: "tables \<Rightarrow> pos \<Rightarrow> nat \<times> real option \<Rightarrow> nat list \<Rightarrow> nat \<times> real option" where
  "pickRoot t rootS best [] = best"
| "pickRoot t rootS (bestA, bestV) (a # as) =
     (let q = getQ t rootS a; n = getNa t rootS a;
          v = (if n > 0 then Some (q / real n) else None)
      in pickRoot t rootS
           (case v of
              None \<Rightarrow> (bestA, bestV)
            | Some x \<Rightarrow> if (case bestV of None \<Rightarrow> True | Some b \<Rightarrow> x > b)
                        then (a, Some x) else (bestA, bestV)) as)"

definition mctsPlan :: "planner \<Rightarrow> (nat \<Rightarrow> real) \<Rightarrow> nat \<Rightarrow> pos \<Rightarrow> nat" where
  "mctsPlan P rnd passes state =
     (let t = fst (simulations P rnd \<lparr>tN = Map.empty, tNa = Map.empty, tQ = Map.empty\<rparr>
                     0 state passes);
          acts = validActionsFn P state
      in if length acts = 0 then 0
         else fst (pickRoot t state (acts ! 0, None) acts))"

text \<open>
  The planner as the tabular agent calls it: \<open>validActionsFromState\<close>, \<open>simStep\<close> and
  minus \<open>manhattanToGoal\<close>, depth 25, c = 1.2. On a grid all of whose rows within the
  declared height exist, \<open>isValidMove\<close> raises nothing, and an action is kept iff it
  answers true.
\<close>

definition validActionsFromState :: "int \<Rightarrow> int \<Rightarrow> maze \<Rightarrow> pos \<Rightarrow> nat list" where
  "validActionsFromState w h m s = filter (\<lambda>a. isValidMove w h s a m = Inr True) [0, 1, 2, 3]"

definition manhattanToGoal :: "int \<Rightarrow> int \<Rightarrow> pos \<Rightarrow> int" where
  "manhattanToGoal w h s = \<bar>fst s - (h - 2)\<bar> + \<bar>snd s - (w - 2)\<bar>"

definition simStep :: "int \<Rightarrow> int \<Rightarrow> maze \<Rightarrow> pos \<Rightarrow> nat \<Rightarrow> pos \<times> real \<times> bool" where
  "simStep w h m s a =
     (if isValidMove w h s a m \<noteq> Inr True then (s, - 1, False)
      else let next = (fst s + fst (actions ! a), snd s + snd (actions ! a));
               isWin = (fst next = h - 2 \<and> snd next = w - 2);
               r = (if isWin then 100
                    else - 0.1 - (if manhattanToGoal w h next - manhattanToGoal w h s > 0
                                  then 0.5 else 0))
           in (next, r, isWin))"

definition tabularPlanner :: "int \<Rightarrow> int \<Rightarrow> maze \<Rightarrow> planner" where
  "tabularPlanner w h m =
     \<lparr>validActionsFn = validActionsFromState w h m, stepFn = simStep w h m,
      evaluateFn = (\<lambda>s. - real_of_int (manhattanToGoal w h s)), maxDepth = 25, ucb_c = 1.2\<rparr>"

section \<open>Replay buffer\<close>

lemma memorySize_storeExperience [simp]:
  "memorySize (storeExperience ag s a r n t) = memorySize ag"
  by (simp add: storeExperience_def Let_def)

lemma memory_storeExperience:
  "memory (storeExperience ag s a r n t) =
     drop (length (memory ag) + 1 - nat (memorySize ag)) (memory ag @ [experienceOf (s, a, r, n, t)])"
  if "int (length (memory ag)) \<le> memorySize ag"
proof (cases "int (length (memory ag)) = memorySize ag")
  case True
  then have c: "nat (memorySize ag) = length (memory ag)" by linarith
  have "tl (memory ag @ [experienceOf (s, a, r, n, t)])
          = drop 1 (memory ag @ [experienceOf (s, a, r, n, t)])"
    by (metis One_nat_def drop_0 drop_Suc)
  then show ?thesis
    using True by (simp add: storeExperience_def Let_def experienceOf_def c)
next
  case False
  with that have "Suc (length (memory ag)) \<le> nat (memorySize ag)" by linarith
  then show ?thesis
    using that False by (simp add: storeExperience_def Let_def experienceOf_def)
qed

lemma memorySize_storeAll [simp]: "memorySize (storeAll ag xs) = memorySize ag"
  by (induction ag xs rule: storeAll.induct) simp_all

lemma drop_drop_window:
  "drop (length (drop (length ys - c) ys @ zs) - c) (drop (length ys - c) ys @ zs)
     = drop (length (ys @ zs) - c) (ys @ zs)"
  by (cases "c \<le> length ys") (auto simp: add.commute)

lemma memory_storeAll:
  "int (length (memory ag)) \<le> memorySize ag \<Longrightarrow>
   memory (storeAll ag xs) =
     drop (length (memory ag @ map experienceOf xs) - nat (memorySize ag))
       (memory ag @ map experienceOf xs)"
proof (induction ag xs rule: storeAll.induct)
  case (1 ag)
  then show ?case by (simp add: nat_le_iff)
next
  case (2 ag s a r n t xs)
  let ?c = "nat (memorySize ag)"
  let ?m1 = "memory ag @ [experienceOf (s, a, r, n, t)]"
  have m: "memory (storeExperience ag s a r n t) = drop (length ?m1 - ?c) ?m1"
    using memory_storeExperience [OF "2.prems"] by simp
  have len: "int (length (memory (storeExperience ag s a r n t)))
               \<le> memorySize (storeExperience ag s a r n t)"
    using "2.prems" unfolding m by auto
  let ?rest = "map experienceOf xs"
  have eq: "?m1 @ ?rest = memory ag @ map experienceOf ((s, a, r, n, t) # xs)"
    by simp
  have "memory (storeAll (storeExperience ag s a r n t) xs)
          = drop (length (drop (length ?m1 - ?c) ?m1 @ ?rest) - ?c)
              (drop (length ?m1 - ?c) ?m1 @ ?rest)"
    using "2.IH" [OF len] by (simp only: m memorySize_storeExperience)
  also have "\<dots> = drop (length (?m1 @ ?rest) - ?c) (?m1 @ ?rest)"
    by (rule drop_drop_window)
  finally show ?case
    by (simp only: eq storeAll.simps)
qed

text \<open>
  C5. Starting from a buffer within its capacity, after any sequence of insertions the
  buffer is no longer than the capacity and holds the most recent records in insertion
  order: the last \<open>memorySize\<close> of the old contents followed by the inserted records. In
  particular, inserting capacity + k records into an empty buffer leaves the inserted
  sequence without its k oldest records.
\<close>

theorem replay_buffer_fifo:
  assumes "int (length (memory ag)) \<le> memorySize ag"
  shows "int (length (memory (storeAll ag xs))) \<le> memorySize ag \<and>
         memory (storeAll ag xs) =
           drop (length (memory ag @ map experienceOf xs) - nat (memorySize ag))
             (memory ag @ map experienceOf xs) \<and>
         (memory ag = [] \<and> length xs = nat (memorySize ag) + k \<longrightarrow>
            memory (storeAll ag xs) = drop k (map experienceOf xs))"
proof -
  have m: "memory (storeAll ag xs) =
           drop (length (memory ag @ map experienceOf xs) - nat (memorySize ag))
             (memory ag @ map experienceOf xs)"
    by (rule memory_storeAll [OF assms])
  from assms have "0 \<le> memorySize ag" by linarith
  then have "int (length (memory (storeAll ag xs))) \<le> memorySize ag"
    unfolding m by auto
  moreover have "memory (storeAll ag xs) = drop k (map experienceOf xs)"
    if "memory ag = []" "length xs = nat (memorySize ag) + k"
    unfolding m using that by simp
  ultimately show ?thesis using m by blast
qed

theorem replay_buffer_fifo_witness:
  "int (length (memory exampleAgent)) \<le> memorySize exampleAgent \<and>
   memory exampleAgent = [] \<and>
   length [([0], Move Up, -1, [1], NotTerminal), ([1], Move Right, 2, [2], NotTerminal),
           ([2], Wait, 100, [3], Win)] = nat (memorySize exampleAgent) + 1 \<and>
   memory (storeAll exampleAgent
             [([0], Move Up, -1, [1], NotTerminal), ([1], Move Right, 2, [2], NotTerminal),
              ([2], Wait, 100, [3], Win)])
     = [experienceOf ([1], Move Right, 2, [2], NotTerminal), experienceOf ([2], Wait, 100, [3], Win)]"
  using replay_buffer_fifo [of exampleAgent
      "[([0], Move Up, -1, [1], NotTerminal), ([1], Move Right, 2, [2], NotTerminal),
        ([2], Wait, 100, [3], Win)]" 1]
  by (simp add: exampleAgent_def)

section \<open>Tabular agent: the Q-update and the epsilon floor\<close>

text \<open>
  C2. On the 3x3 maze no action is valid in the only open cell. For the transition the
  training step builds there (old and new state (1,1), action 0, reward 100) the claim
  gives the new table value 0 + 0.1 * (100 + 0.95 * 0 - 0) = 10, the bootstrap term
  being 0. \<open>QLearningAgent.updateQValue\<close> takes \<open>Math.max\<close> of four times
  \<open>-Infinity\<close> and stores \<open>-Infinity\<close>.
\<close>

theorem updateQValue_no_valid_action:
  "(case updateQValue (QLearningAgent 3 3 noOptions) (1, 1) 0 (1, 1) (Fin 100) maze3 of
      Inl e \<Rightarrow> Inl e
    | Inr ag \<Rightarrow> Inr (q_value ag (1, 1) 0)) = Inr NInf"
  by (simp add: updateQValue_def QLearningAgent_def noOptions_def maze3_def getQValue_def
      q_ensure_def setQValue_def isValidMove_def actions_def maze_at_def orDefault_def
      Let_def arr_read_def arr_write_def js_sub_def q_value_def)

lemma q_finishGame_epsilon_le:
  "0 \<le> q_epsilon ag \<Longrightarrow> q_epsilonDecay ag \<le> 1 \<Longrightarrow>
   q_epsilon (q_finishGame ag isWin) \<le> q_epsilon ag"
  by (simp add: q_finishGame_def Let_def mult_left_le)

text \<open>
  C4. An agent built with epsilon 1, epsilonMin 0.5 and decay 0.9 has, after seven
  episode ends, epsilon 0.9^7 = 0.4782969, strictly below its epsilonMin 0.5: the guard
  \<open>epsilon > epsilonMin\<close> is tested before the multiplication, not after.
\<close>

theorem finishGame_below_epsilonMin:
  "q_epsilon (q_finishGames
       (QLearningAgent 5 5
          (noOptions\<lparr>opt_epsilon := Some 1, opt_epsilonMin := Some 0.5,
                      opt_epsilonDecay := Some 0.9\<rparr>))
       [False, False, False, False, False, False, False]) = 0.4782969 \<and>
   q_epsilonMin (q_finishGames
       (QLearningAgent 5 5
          (noOptions\<lparr>opt_epsilon := Some 1, opt_epsilonMin := Some 0.5,
                      opt_epsilonDecay := Some 0.9\<rparr>))
       [False, False, False, False, False, False, False]) = 0.5"
  by (simp add: QLearningAgent_def noOptions_def orDefault_def q_finishGame_def Let_def)

section \<open>Valid moves\<close>

lemma directionActions_Move:
  "directionActions ag m ds = Inr acts \<Longrightarrow>
   (Move d \<in> set acts \<longleftrightarrow>
      d \<in> set ds \<and> cellFree ag m (fst (moveTarget ag d)) (snd (moveTarget ag d)) = Inr True)"
proof (induction ds arbitrary: acts)
  case Nil
  then show ?case by auto
next
  case (Cons d0 ds)
  then show ?case
    by (auto simp: Let_def moveTarget_def split: sum.splits if_splits)
qed

lemma dir_in_all: "d \<in> set [Up, Right, Down, Left]"
  by (cases d) auto

lemma getValidActions_Move:
  assumes "getValidActions ag m = Inr acts"
  shows "Move d \<in> set acts \<longleftrightarrow>
           cellFree ag m (fst (moveTarget ag d)) (snd (moveTarget ag d)) = Inr True"
proof -
  from assms obtain va where va: "directionActions ag m [Up, Right, Down, Left] = Inr va"
    and acts: "acts = va @ [Wait, Rest]
               @ (if length (inventory (n_agentState ag)) > 0 then [UseItem] else [])"
    by (auto simp: getValidActions_def split: sum.splits)
  have "Move d \<in> set acts \<longleftrightarrow> Move d \<in> set va"
    unfolding acts by auto
  then show ?thesis
    using directionActions_Move [OF va, of d] dir_in_all [of d] by blast
qed

lemma cellFree_True_iff:
  "cellFree ag m x y = Inr True \<longleftrightarrow>
     0 \<le> x \<and> x < n_height ag \<and> 0 \<le> y \<and> y < n_width ag \<and>
     maze_at m x y = Inr (Some 0) \<and> \<not> isBlocked (n_dynamicElements ag) x y"
  by (auto simp: cellFree_def Let_def split: sum.splits)

lemma upt_0_2: "[0..<2] = [0, Suc 0]"
  by (simp add: numeral_2_eq_2)

lemma isBlocked_wallElements: "isBlocked wallElements 1 2"
  by (simp add: isBlocked_def wallElements_def noElements_def getMovingWallCells_def
      insideArena_def Let_def upt_0_2)

text \<open>
  C3, as stated, fails: \<open>isValidMove\<close> of the tabular and hybrid agents never consults the
  dynamic elements. It accepts the move right from (1,1) on the 5x5 maze although
  \<open>isBlocked\<close> reports the target (1,2) occupied by a moving wall.
\<close>

theorem isValidMove_ignores_isBlocked:
  "isValidMove 5 5 (1, 1) 1 maze5 = Inr True \<and> isBlocked wallElements 1 2"
  using isBlocked_wallElements
  by (simp add: isValidMove_def actions_def maze5_def maze_at_def Let_def)

text \<open>
  C3, amended. \<open>isValidMove\<close> returns true iff the action is one of the four and its
  target cell is in bounds and open (0) in the static grid; these agents hold no dynamic
  elements. For the linear agent, whenever \<open>getValidActions\<close> returns, a plain move is in
  the valid-action set iff its target is in bounds, open in the static grid and not
  occupied by a dynamic element as reported by \<open>isBlocked\<close>.
\<close>

theorem isValidMove_iff:
  "(isValidMove w h s a m = Inr True \<longleftrightarrow>
      a < 4 \<and> 0 \<le> fst s + fst (actions ! a) \<and> fst s + fst (actions ! a) < h \<and>
      0 \<le> snd s + snd (actions ! a) \<and> snd s + snd (actions ! a) < w \<and>
      maze_at m (fst s + fst (actions ! a)) (snd s + snd (actions ! a)) = Inr (Some 0)) \<and>
   (getValidActions ag m' = Inr acts \<longrightarrow>
      (Move d \<in> set acts \<longleftrightarrow>
         0 \<le> fst (moveTarget ag d) \<and> fst (moveTarget ag d) < n_height ag \<and>
         0 \<le> snd (moveTarget ag d) \<and> snd (moveTarget ag d) < n_width ag \<and>
         maze_at m' (fst (moveTarget ag d)) (snd (moveTarget ag d)) = Inr (Some 0) \<and>
         \<not> isBlocked (n_dynamicElements ag) (fst (moveTarget ag d)) (snd (moveTarget ag d))))"
proof -
  have "isValidMove w h s a m = Inr True \<longleftrightarrow>
      a < 4 \<and> 0 \<le> fst s + fst (actions ! a) \<and> fst s + fst (actions ! a) < h \<and>
      0 \<le> snd s + snd (actions ! a) \<and> snd s + snd (actions ! a) < w \<and>
      maze_at m (fst s + fst (actions ! a)) (snd s + snd (actions ! a)) = Inr (Some 0)"
    by (auto simp: isValidMove_def Let_def split: sum.splits)
  then show ?thesis
    using getValidActions_Move [of ag m' acts d] cellFree_True_iff by auto
qed

theorem isValidMove_iff_witness:
  "isValidMove 5 5 (1, 1) 1 maze5 = Inr True \<and>
   isValidMove 5 5 (1, 1) 2 maze5 = Inr False \<and>
   getValidActions (exampleAgent\<lparr>n_dynamicElements := wallElements\<rparr>) maze5 = Inr [Wait, Rest] \<and>
   Move Right \<notin> set [Wait, Rest] \<and>
   maze_at maze5 1 2 = Inr (Some 0) \<and>
   isBlocked wallElements 1 2"
  using isValidMove_iff [of 5 5 "(1, 1)" 1 maze5
      "exampleAgent\<lparr>n_dynamicElements := wallElements\<rparr>" maze5 "[Wait, Rest]" Right]
    isBlocked_wallElements
  by (simp add: isValidMove_def actions_def maze5_def maze_at_def Let_def getValidActions_def
      cellFree_def exampleAgent_def EnhancedAgentState_def isBlocked_def wallElements_def
      noElements_def getMovingWallCells_def insideArena_def upt_0_2)

section \<open>Linear agent: a valid move can fail for lack of energy\<close>

text \<open>
  C10. A plain move that \<open>getValidActions\<close> reports as valid is executed by
  \<open>performAction\<close> only if the agent's energy is at least the move's cost 1. Below that,
  the call returns \<open>success = false\<close> with the old position, raises nothing and leaves the
  agent (position, path and everything else) unchanged; from 1 on it succeeds, moves the
  agent to the target and appends the target to the path.
\<close>

theorem valid_move_needs_energy:
  assumes "getValidActions ag m = Inr acts" and "Move d \<in> set acts"
  shows "(energy (n_agentState ag) < 1 \<longrightarrow>
            performAction ag (Move d) m =
              Inr (\<lparr>success = False, mr_position = position (n_agentState ag)\<rparr>, ag)) \<and>
         (energy (n_agentState ag) \<ge> 1 \<longrightarrow>
            (\<exists>ag'. performAction ag (Move d) m =
                     Inr (\<lparr>success = True, mr_position = moveTarget ag d\<rparr>, ag') \<and>
                   position (n_agentState ag') = moveTarget ag d \<and>
                   path (n_agentState ag') = path (n_agentState ag) @ [moveTarget ag d]))"
proof -
  have free: "cellFree ag m (fst (moveTarget ag d)) (snd (moveTarget ag d)) = Inr True"
    using getValidActions_Move [OF assms(1)] assms(2) by blast
  obtain x y where p: "position (n_agentState ag) = (x, y)"
    by (cases "position (n_agentState ag)")
  show ?thesis
    using free by (simp add: performAction_def p moveTarget_def Let_def)
qed

lemma getValidActions_tiredAgent:
  "getValidActions tiredAgent maze5 = Inr [Move Right, Wait, Rest]"
  by (simp add: getValidActions_def cellFree_def tiredAgent_def exampleAgent_def
      EnhancedAgentState_def isBlocked_def noElements_def maze5_def maze_at_def Let_def)

lemma getValidActions_exampleAgent:
  "getValidActions exampleAgent maze5 = Inr [Move Right, Wait, Rest]"
  by (simp add: getValidActions_def cellFree_def exampleAgent_def
      EnhancedAgentState_def isBlocked_def noElements_def maze5_def maze_at_def Let_def)

theorem valid_move_needs_energy_witness:
  "getValidActions tiredAgent maze5 = Inr [Move Right, Wait, Rest] \<and>
   Move Right \<in> set [Move Right, Wait, Rest] \<and>
   energy (n_agentState tiredAgent) < 1 \<and>
   performAction tiredAgent (Move Right) maze5 =
     Inr (\<lparr>success = False, mr_position = (1, 1)\<rparr>, tiredAgent) \<and>
   getValidActions exampleAgent maze5 = Inr [Move Right, Wait, Rest] \<and>
   energy (n_agentState exampleAgent) \<ge> 1 \<and>
   (\<exists>ag'. performAction exampleAgent (Move Right) maze5 =
            Inr (\<lparr>success = True, mr_position = (1, 2)\<rparr>, ag') \<and>
          position (n_agentState ag') = (1, 2) \<and>
          path (n_agentState ag') = [(1, 1), (1, 2)])"
proof -
  have t: "energy (n_agentState tiredAgent) < 1" "position (n_agentState tiredAgent) = (1, 1)"
    by (simp_all add: tiredAgent_def EnhancedAgentState_def)
  have e: "energy (n_agentState exampleAgent) \<ge> 1"
    "moveTarget exampleAgent Right = (1, 2)"
    "path (n_agentState exampleAgent) = [(1, 1)]"
    by (simp_all add: exampleAgent_def EnhancedAgentState_def moveTarget_def)
  show ?thesis
    using valid_move_needs_energy [OF getValidActions_tiredAgent, of Right]
      valid_move_needs_energy [OF getValidActions_exampleAgent, of Right]
      getValidActions_tiredAgent getValidActions_exampleAgent t e
    by simp
qed


section \<open>Hybrid agent on a large maze\<close>

lemma large_ctor:
  "w * h > 1000 \<Longrightarrow> isLargeMaze (HybridMazeAgent w h opts) \<and>
     currentStrategy (HybridMazeAgent w h opts) = Pathfinding \<and>
     knownSolution (HybridMazeAgent w h opts) = None \<and>
     solutionSteps (HybridMazeAgent w h opts) = 0 \<and>
     h_position (HybridMazeAgent w h opts) = (1, 1) \<and>
     h_qTable (HybridMazeAgent w h opts) = Map.empty"
  by (simp add: HybridMazeAgent_def h_reset_def Let_def)

lemma move_large:
  "isLargeMaze ag \<Longrightarrow>
     move solve a ag m = Inr (pathfindingMove solve (ag\<lparr>currentStrategy := Pathfinding\<rparr>) m)"
  by (simp add: move_def selectStrategy_def Let_def)

lemma pathfindingMove_frame:
  "pathfindingMove solve ag m = (res, ag') \<Longrightarrow>
     hm_strategy res = Pathfinding \<and> isLargeMaze ag' = isLargeMaze ag \<and>
     currentStrategy ag' = currentStrategy ag \<and> h_qTable ag' = h_qTable ag"
  by (auto simp: pathfindingMove_def Let_def split: option.splits if_splits)

lemma pathfindingMove_first:
  assumes "knownSolution ag = None \<or> solutionSteps ag = 0"
    and "solve m (h_position ag) = Some sol" and "2 \<le> length sol"
  shows "pathfindingMove solve ag m =
           (\<lparr>hm_position = sol ! 1, hm_action = None, hm_moves = h_moves ag + 1,
             isValid = True, hm_strategy = Pathfinding\<rparr>,
            ag\<lparr>knownSolution := Some sol, solutionSteps := 1, h_position := sol ! 1,
               h_path := h_path ag @ [sol ! 1], h_moves := h_moves ag + 1\<rparr>)"
  using assms by (auto simp: pathfindingMove_def Let_def)

lemma pathfindingMove_cached:
  assumes "knownSolution ag = Some sol" and "solutionSteps ag \<noteq> 0"
  shows "pathfindingMove solve' ag m = pathfindingMove solve ag m"
  using assms by (simp add: pathfindingMove_def Let_def)

lemma no_update_while_pathfinding:
  assumes "currentStrategy ag = Pathfinding"
  shows "h_updateQValue ag prev act s' r m = Inr ag"
    and "\<exists>out. h_trainStep ag m p a = Inr (out, ag)"
  using assms by (auto simp: h_updateQValue_def h_trainStep_def Let_def split: option.splits)


lemma reachable_large:
  assumes "reachable solve m ag0 ag"
    and "isLargeMaze ag0" "currentStrategy ag0 = Pathfinding"
  shows "isLargeMaze ag \<and> currentStrategy ag = Pathfinding \<and> h_qTable ag = h_qTable ag0"
  using assms
proof (induction rule: reachable.induct)
  case r_start
  then show ?case by simp
next
  case (r_move ag a res ag')
  then have "pathfindingMove solve (ag\<lparr>currentStrategy := Pathfinding\<rparr>) m = (res, ag')"
    using move_large [of ag solve a m] by simp
  from pathfindingMove_frame [OF this] r_move show ?case by simp
next
  case (r_train ag p act out ag')
  then show ?case using no_update_while_pathfinding(2) [of ag m p act] by auto
next
  case (r_update ag s act s' r ag')
  then show ?case using no_update_while_pathfinding(1) [of ag s act s' r m] by auto
next
  case (r_finish ag isWin)
  then show ?case by (simp add: h_finishGame_def Let_def)
next
  case (r_reset ag)
  then show ?case by (simp add: h_reset_def)
next
  case (r_training ag b)
  then show ?case by simp
qed

text \<open>
  C6. On a maze of more than 1000 cells, with an oracle that returns a route of at least
  two cells from the start: the first action request answers with strategy pathfinding,
  is valid, and moves the agent to the second cell of the route, which is now cached: any
  later request gives the same result whatever the oracle would return. In every state
  the agent can reach, each action request resolves to pathfinding, and neither
  \<open>updateQValue\<close> nor \<open>trainStep\<close> changes the agent; the Q-table stays empty.
\<close>

theorem hybrid_large_maze_pathfinding:
  assumes "w * h > 1000" and "solve m (1, 1) = Some sol" and "2 \<le> length sol"
  shows "(\<exists>res ag1.
           move solve a (HybridMazeAgent w h opts) m = Inr (res, ag1) \<and>
           hm_strategy res = Pathfinding \<and> isValid res \<and> hm_position res = sol ! 1 \<and>
           h_position ag1 = sol ! 1 \<and> knownSolution ag1 = Some sol \<and>
           (\<forall>solve' a'. move solve' a' ag1 m = move solve a ag1 m)) \<and>
         (\<forall>ag. reachable solve m (HybridMazeAgent w h opts) ag \<longrightarrow>
            currentStrategy ag = Pathfinding \<and> h_qTable ag = Map.empty \<and>
            (\<forall>a'. \<exists>res ag'. move solve a' ag m = Inr (res, ag') \<and>
                      hm_strategy res = Pathfinding \<and> h_qTable ag' = Map.empty) \<and>
            (\<forall>s act s' r. h_updateQValue ag s act s' r m = Inr ag) \<and>
            (\<forall>p act. \<exists>out. h_trainStep ag m p act = Inr (out, ag)))"
proof -
  let ?ag0 = "HybridMazeAgent w h opts"
  note c = large_ctor [OF assms(1), of opts]
  let ?s0 = "?ag0\<lparr>currentStrategy := Pathfinding\<rparr>"
  have first: "pathfindingMove solve ?s0 m =
           (\<lparr>hm_position = sol ! 1, hm_action = None, hm_moves = h_moves ?s0 + 1,
             isValid = True, hm_strategy = Pathfinding\<rparr>,
            ?s0\<lparr>knownSolution := Some sol, solutionSteps := 1, h_position := sol ! 1,
               h_path := h_path ?s0 @ [sol ! 1], h_moves := h_moves ?s0 + 1\<rparr>)"
    using c assms(2,3) by (intro pathfindingMove_first) simp_all
  let ?ag1 = "?s0\<lparr>knownSolution := Some sol, solutionSteps := 1, h_position := sol ! 1,
               h_path := h_path ?s0 @ [sol ! 1], h_moves := h_moves ?s0 + 1\<rparr>"
  have large1: "isLargeMaze ?ag1" using c by simp
  have cached: "move solve' a' ?ag1 m = move solve a ?ag1 m" for solve' a'
  proof -
    have "pathfindingMove solve' (?ag1\<lparr>currentStrategy := Pathfinding\<rparr>) m
            = pathfindingMove solve (?ag1\<lparr>currentStrategy := Pathfinding\<rparr>) m"
      by (rule pathfindingMove_cached [where sol = sol]) simp_all
    then show ?thesis
      by (simp only: move_large [OF large1])
  qed
  have part1: "\<exists>res ag1.
           move solve a ?ag0 m = Inr (res, ag1) \<and>
           hm_strategy res = Pathfinding \<and> isValid res \<and> hm_position res = sol ! 1 \<and>
           h_position ag1 = sol ! 1 \<and> knownSolution ag1 = Some sol \<and>
           (\<forall>solve' a'. move solve' a' ag1 m = move solve a ag1 m)"
    using cached c by (simp add: move_large first)
  have part2: "currentStrategy ag = Pathfinding \<and> h_qTable ag = Map.empty \<and>
            (\<forall>a'. \<exists>res ag'. move solve a' ag m = Inr (res, ag') \<and>
                      hm_strategy res = Pathfinding \<and> h_qTable ag' = Map.empty) \<and>
            (\<forall>s act s' r. h_updateQValue ag s act s' r m = Inr ag) \<and>
            (\<forall>p act. \<exists>out. h_trainStep ag m p act = Inr (out, ag))"
    if r: "reachable solve m ?ag0 ag" for ag
  proof -
    have inv: "isLargeMaze ag" "currentStrategy ag = Pathfinding" "h_qTable ag = Map.empty"
      using reachable_large [OF r] c by simp_all
    have mv: "\<exists>res ag'. move solve a' ag m = Inr (res, ag') \<and>
                      hm_strategy res = Pathfinding \<and> h_qTable ag' = Map.empty" for a'
    proof -
      obtain res ag' where
        pm: "pathfindingMove solve (ag\<lparr>currentStrategy := Pathfinding\<rparr>) m = (res, ag')"
        by (cases "pathfindingMove solve (ag\<lparr>currentStrategy := Pathfinding\<rparr>) m")
      from pathfindingMove_frame [OF pm] inv show ?thesis
        by (simp add: move_large pm)
    qed
    show ?thesis
      using inv mv no_update_while_pathfinding [OF inv(2)] by blast
  qed
  from part1 part2 show ?thesis by blast
qed

lemma exampleRoute_facts:
  "2 \<le> length exampleRoute" "exampleRoute ! 1 = (1, 2)"
  by code_simp+

theorem hybrid_large_maze_pathfinding_witness:
  "(33::int) * 33 > 1000 \<and> exampleOracle bigMaze (1, 1) = Some exampleRoute \<and>
   2 \<le> length exampleRoute \<and>
   (\<exists>res ag1. move exampleOracle 0 (HybridMazeAgent 33 33 noOptions) bigMaze = Inr (res, ag1) \<and>
      hm_strategy res = Pathfinding \<and> isValid res \<and> hm_position res = (1, 2) \<and>
      h_position ag1 = (1, 2) \<and> knownSolution ag1 = Some exampleRoute) \<and>
   reachable exampleOracle bigMaze (HybridMazeAgent 33 33 noOptions)
     (HybridMazeAgent 33 33 noOptions) \<and>
   currentStrategy (HybridMazeAgent 33 33 noOptions) = Pathfinding \<and>
   h_qTable (HybridMazeAgent 33 33 noOptions) = Map.empty"
proof -
  have o: "exampleOracle bigMaze (1, 1) = Some exampleRoute"
    by (simp add: exampleOracle_def)
  have r: "reachable exampleOracle bigMaze (HybridMazeAgent 33 33 noOptions)
     (HybridMazeAgent 33 33 noOptions)"
    by (rule r_start)
  show ?thesis
    using hybrid_large_maze_pathfinding [of 33 33 exampleOracle bigMaze exampleRoute 0 noOptions,
        OF _ o exampleRoute_facts(1)] o r exampleRoute_facts
    by auto
qed


section \<open>Reward: terminal terms against shaping terms\<close>

lemma getEnergyCost_bounds: "1 / 2 \<le> getEnergyCost st a" "getEnergyCost st a \<le> 3"
  by (simp_all add: getEnergyCost_def Let_def)

lemma unknownNeighbors_le: "unknownNeighbors st p m \<le> 9"
proof -
  have "unknownNeighbors st p m \<le> length (concat (map (\<lambda>i. map (\<lambda>j. (i, j)) [-1, 0, 1::int]) [-1, 0, 1::int]))"
    unfolding unknownNeighbors_def by (rule length_filter_le)
  then show ?thesis by simp
qed

lemma costBlock_bounds:
  assumes "costBlock r st a = (r', st')"
  shows "r - 113 / 20 \<le> r'" and "r' \<le> r - 21 / 40"
    and "st' = st\<lparr>energy := max 0 (energy st - getEnergyCost st a)\<rparr>"
  using assms getEnergyCost_bounds [of st a]
  by (auto simp: costBlock_def Let_def split: if_splits)

lemma progressBlock_bounds:
  assumes "progressBlock r st np = (r', st')"
  shows "r - 1 \<le> r'" and "r' \<le> r + 15"
    and "st' = st\<lparr>stepsWithoutProgress := stepsWithoutProgress st'\<rparr>"
proof -
  show "r - 1 \<le> r'" and "r' \<le> r + 15"
    and "st' = st\<lparr>stepsWithoutProgress := stepsWithoutProgress st'\<rparr>"
    using assms unfolding progressBlock_def Let_def
    by (auto simp: le_max_iff_disj split: if_splits)
qed

lemma progressBlock_closer:
  assumes "progressBlock r st np = (r', st')" and "np = primaryGoal st" and "position st \<noteq> np"
  shows "r' = r + 15" and "stepsWithoutProgress st' = 0"
proof -
  have "0 < \<bar>fst (position st) - fst (primaryGoal st)\<bar> + \<bar>snd (position st) - snd (primaryGoal st)\<bar>"
    using assms(2,3) by (auto simp: prod_eq_iff)
  then show "r' = r + 15" and "stepsWithoutProgress st' = 0"
    using assms(1,2) by (auto simp: progressBlock_def Let_def split: if_splits)
qed

lemma stagnationBlock_le: "stagnationBlock r st \<le> r"
  by (simp add: stagnationBlock_def)

lemma stagnationBlock_zero: "stepsWithoutProgress st = 0 \<Longrightarrow> stagnationBlock r st = r"
  by (simp add: stagnationBlock_def)


lemma modeBlock_upper:
  assumes "modeBlock r st np m ev = (r', st')"
  shows "r' \<le> r + 35" and "st' = st\<lparr>health := health st'\<rparr>"
  using assms unknownNeighbors_le [of st np m]
  by (cases "gameMode st"; auto simp: modeBlock_def Let_def split: if_splits)+

lemma terminalBlock_death:
  assumes "health st \<le> 0 \<or> energy st \<le> 0" and "np \<noteq> primaryGoal st"
  shows "terminalBlock r st np = r - 100"
  using assms by (auto simp: terminalBlock_def Let_def prod_eq_iff)

lemma calculateReward_blocks:
  assumes "calculateReward st a np m ev = (r, st3)"
  obtains r1 st1 r2 st2 r4 where
    "costBlock 0 st a = (r1, st1)" "progressBlock r1 st1 np = (r2, st2)"
    "modeBlock (stagnationBlock r2 st2) st2 np m ev = (r4, st3)"
    "r = terminalBlock r4 st3 np"
  using assms
  by (auto simp: calculateReward_def Let_def split: prod.splits)


lemma calculateReward_death:
  assumes "calculateReward st a np m ev = (r, st')"
    and "health st' \<le> 0 \<or> energy st' \<le> 0"
    and "np \<noteq> primaryGoal st"
  shows "r \<le> - 50"
proof -
  from assms(1) obtain r1 st1 r2 st2 r4 where
    b: "costBlock 0 st a = (r1, st1)" "progressBlock r1 st1 np = (r2, st2)"
    "modeBlock (stagnationBlock r2 st2) st2 np m ev = (r4, st')"
    "r = terminalBlock r4 st' np"
    by (rule calculateReward_blocks)
  note c = costBlock_bounds [OF b(1)] and p = progressBlock_bounds [OF b(2)]
    and s = stagnationBlock_le [of r2 st2] and mo = modeBlock_upper [OF b(3)]
  have "primaryGoal st' = primaryGoal st2"
    by (subst mo(2)) simp
  also have "\<dots> = primaryGoal st1"
    by (subst p(3)) simp
  also have "\<dots> = primaryGoal st"
    by (subst c(3)) simp
  finally have g: "primaryGoal st' = primaryGoal st" .
  have "r = r4 - 100"
    unfolding b(4) using assms(2,3) g by (intro terminalBlock_death) simp_all
  then show ?thesis
    using c(1,2) p(1,2) s mo(1) by linarith
qed

lemma progressBlock_on_goal:
  assumes "progressBlock r st np = (r', st')" and "np = primaryGoal st" and "position st = np"
  shows "r' = r - 1 / 10" and "st' = st"
  using assms by (auto simp: progressBlock_def Let_def split: if_splits)

lemma stagnationBlock_eq:
  "stagnationBlock r st =
     r - (if 15 < stepsWithoutProgress st then real_of_int (stepsWithoutProgress st) / 2 else 0)"
  by (simp add: stagnationBlock_def)

lemma modeBlock_penalty:
  assumes "modeBlock r st np m ev = (r', st')"
  shows "r - (if gameMode st = Survival \<and> hitTrap ev then 30
              else if gameMode st = Dynamic \<and> caughtByMovingWall ev then 15
              else if gameMode st = Competitive \<and> wasBlocked ev then 5 else 0) \<le> r'"
  using assms
  by (cases "gameMode st") (auto simp: modeBlock_def Let_def split: if_splits)

lemma terminalBlock_win_eq:
  assumes "0 < health st" "0 < energy st" and "np = primaryGoal st"
  shows "terminalBlock r st np = r + 100 + max 0 (1000 - real_of_int (moves st)) / 10"
  using assms by (auto simp: terminalBlock_def Let_def)

lemma calculateReward_win:
  assumes "calculateReward st a np m ev = (r, st')"
    and "np = primaryGoal st" and "0 < health st'" and "0 < energy st'"
  shows "100 + max 0 (1000 - real_of_int (moves st)) / 10
         - 113 / 20
         - (if position st = np
            then 1 / 10 + (if 15 < stepsWithoutProgress st
                           then real_of_int (stepsWithoutProgress st) / 2 else 0)
            else - 15)
         - (if gameMode st = Survival \<and> hitTrap ev then 30
            else if gameMode st = Dynamic \<and> caughtByMovingWall ev then 15
            else if gameMode st = Competitive \<and> wasBlocked ev then 5 else 0) \<le> r"
proof -
  from assms(1) obtain r1 st1 r2 st2 r4 where
    b: "costBlock 0 st a = (r1, st1)" "progressBlock r1 st1 np = (r2, st2)"
    "modeBlock (stagnationBlock r2 st2) st2 np m ev = (r4, st')"
    "r = terminalBlock r4 st' np"
    by (rule calculateReward_blocks)
  note c = costBlock_bounds [OF b(1)] and p = progressBlock_bounds [OF b(2)]
    and mo = modeBlock_upper [OF b(3)]
  have st1: "position st1 = position st" "primaryGoal st1 = primaryGoal st"
    "gameMode st1 = gameMode st" "stepsWithoutProgress st1 = stepsWithoutProgress st"
    "moves st1 = moves st"
    by (subst c(3), simp)+
  have st2: "primaryGoal st2 = primaryGoal st1" "gameMode st2 = gameMode st1"
    "moves st2 = moves st1"
    by (subst p(3), simp)+
  have st3: "primaryGoal st' = primaryGoal st2" "moves st' = moves st2"
    by (subst mo(2), simp)+
  have pr: "stagnationBlock r2 st2 =
      r1 - (if position st = np
            then 1 / 10 + (if 15 < stepsWithoutProgress st
                           then real_of_int (stepsWithoutProgress st) / 2 else 0)
            else - 15)"
  proof (cases "position st = np")
    case True
    then have "r2 = r1 - 1 / 10" "st2 = st1"
      using progressBlock_on_goal [OF b(2)] assms(2) st1 by simp_all
    then show ?thesis
      using True st1 by (simp add: stagnationBlock_eq)
  next
    case False
    then have "r2 = r1 + 15" "stepsWithoutProgress st2 = 0"
      using progressBlock_closer [OF b(2)] assms(2) st1 by simp_all
    then show ?thesis
      using False by (simp add: stagnationBlock_zero)
  qed
  have ml: "stagnationBlock r2 st2 -
      (if gameMode st = Survival \<and> hitTrap ev then 30
       else if gameMode st = Dynamic \<and> caughtByMovingWall ev then 15
       else if gameMode st = Competitive \<and> wasBlocked ev then 5 else 0) \<le> r4"
    using modeBlock_penalty [OF b(3)] unfolding st2(2) st1(3) .
  have g: "np = primaryGoal st'"
    using assms(2) st1 st2 st3 by simp
  have "r = r4 + 100 + max 0 (1000 - real_of_int (moves st')) / 10"
    unfolding b(4) using assms(3,4) g by (intro terminalBlock_win_eq)
  then have "r = r4 + 100 + max 0 (1000 - real_of_int (moves st)) / 10"
    using st1 st2 st3 by simp
  then show ?thesis
    using c(1) pr ml by linarith
qed

lemma calculateReward_win_100:
  assumes "calculateReward st a np m ev = (r, st')"
    and "np = primaryGoal st" and "0 < health st'" and "0 < energy st'"
    and "moves st \<le> 600" and "stepsWithoutProgress st \<le> 15"
  shows "100 \<le> r"
proof -
  define E where "E = max 0 (1000 - real_of_int (moves st)) / 10"
  have "40 \<le> E"
    unfolding E_def using assms(5) by simp
  moreover note calculateReward_win [OF assms(1-4), folded E_def]
  ultimately show ?thesis
    using assms(6) by (auto split: if_splits)
qed


lemmas reward_defs =
  calculateReward_def costBlock_def progressBlock_def stagnationBlock_def modeBlock_def
  terminalBlock_def getEnergyCost_def EnhancedAgentState_def Let_def

text \<open>
  C1, as stated, fails for \<open>calculateReward\<close>, which adds its terminal terms to the
  shaping terms. With the agent on the goal and its energy used up by this very step, the
  win condition and a death condition both hold and the reward is
  -0.5 - 0.05 - 2 - 0.1 + 100 + 95.1 - 100 = 92.45: below 100 and above -50. And a win with
  health and energy left, scored when 1000 moves are counted, earns no efficiency bonus:
  the reward is -0.5 - 0.05 - 0.1 + 100 = 99.35, below 100.
\<close>

theorem reward_not_dominated:
  "(3, 3) = primaryGoal lastStep \<and>
   energy (snd (calculateReward lastStep ''move_down'' (3, 3) maze5 noEvents)) \<le> 0 \<and>
   fst (calculateReward lastStep ''move_down'' (3, 3) maze5 noEvents) = 1849 / 20 \<and>
   fst (calculateReward lastStep ''move_down'' (3, 3) maze5 noEvents) < 100 \<and>
   - 50 < fst (calculateReward lastStep ''move_down'' (3, 3) maze5 noEvents) \<and>
   (31, 31) = primaryGoal lateWin \<and>
   0 < health (snd (calculateReward lateWin ''move_down'' (31, 31) bigMaze noEvents)) \<and>
   0 < energy (snd (calculateReward lateWin ''move_down'' (31, 31) bigMaze noEvents)) \<and>
   fst (calculateReward lateWin ''move_down'' (31, 31) bigMaze noEvents) = 1987 / 20 \<and>
   fst (calculateReward lateWin ''move_down'' (31, 31) bigMaze noEvents) < 100"
  by (simp add: lastStep_def lateWin_def reward_defs)

text \<open>
  C1, amended. The tabular and the hybrid \<open>getReward\<close> return exactly 100 on a win and
  exactly -50 when the game is over (which includes the move-count timeout) without a
  win. \<open>calculateReward\<close> returns at most -50 whenever health or energy is at most 0
  after the step and the new position is not the goal. Whenever the new position is the
  goal and health and energy are positive after the step, it returns at least 100 plus
  the efficiency bonus \<open>max 0 (1000 - moves) / 10\<close>, less the shaping penalties: at most
  5.65 for movement, energy and low resources; 0.1 and the stagnation penalty when the
  agent already stands on the new position (as it does when \<open>executeAction\<close> calls),
  otherwise a progress bonus of 15; and 30, 15 or 5 for a trap hit (survival), a
  moving-wall catch (dynamic) or a block (competitive). So the reward is at least 100
  whenever, in addition, at most 600 moves are counted and the stagnation counter is at
  most 15.
\<close>

theorem terminal_reward_dominance:
  "(isWin \<longrightarrow> q_getReward qa os ns m go isWin = 100 \<and> h_getReward ha os ns m go isWin = 100) \<and>
   (\<not> isWin \<and> go \<longrightarrow>
      q_getReward qa os ns m go isWin = - 50 \<and> h_getReward ha os ns m go isWin = - 50) \<and>
   (calculateReward st a np mz ev = (r, st') \<longrightarrow>
      ((health st' \<le> 0 \<or> energy st' \<le> 0) \<and> np \<noteq> primaryGoal st \<longrightarrow> r \<le> - 50) \<and>
      (np = primaryGoal st \<and> 0 < health st' \<and> 0 < energy st' \<longrightarrow>
         100 + max 0 (1000 - real_of_int (moves st)) / 10
           - 113 / 20
           - (if position st = np
              then 1 / 10 + (if 15 < stepsWithoutProgress st
                             then real_of_int (stepsWithoutProgress st) / 2 else 0)
              else - 15)
           - (if gameMode st = Survival \<and> hitTrap ev then 30
              else if gameMode st = Dynamic \<and> caughtByMovingWall ev then 15
              else if gameMode st = Competitive \<and> wasBlocked ev then 5 else 0) \<le> r \<and>
         (moves st \<le> 600 \<and> stepsWithoutProgress st \<le> 15 \<longrightarrow> 100 \<le> r)))"
proof -
  have "q_getReward qa os ns m go True = 100" "h_getReward ha os ns m go True = 100"
    "q_getReward qa os ns m True False = - 50" "h_getReward ha os ns m True False = - 50"
    by (simp_all add: q_getReward_def h_getReward_def)
  then show ?thesis
    using calculateReward_death [of st a np mz ev r st']
      calculateReward_win [of st a np mz ev r st']
      calculateReward_win_100 [of st a np mz ev r st']
    by auto
qed

theorem terminal_reward_dominance_witness:
  "q_getReward (QLearningAgent 5 5 noOptions) (2, 3) (3, 3) maze5 True True = 100 \<and>
   h_getReward (HybridMazeAgent 5 5 noOptions) (2, 3) (3, 3) maze5 True True = 100 \<and>
   q_getReward (QLearningAgent 5 5 noOptions) (1, 1) (1, 2) maze5 True False = - 50 \<and>
   h_getReward (HybridMazeAgent 5 5 noOptions) (1, 1) (1, 2) maze5 True False = - 50 \<and>
   position dyingStep = (1, 2) \<and>
   energy (snd (calculateReward dyingStep ''move_right'' (1, 2) maze5 noEvents)) \<le> 0 \<and>
   (1, 2) \<noteq> primaryGoal dyingStep \<and>
   fst (calculateReward dyingStep ''move_right'' (1, 2) maze5 noEvents) \<le> - 50 \<and>
   position winStep = (3, 3) \<and> (3, 3) = primaryGoal winStep \<and>
   0 < health (snd (calculateReward winStep ''move_down'' (3, 3) maze5 noEvents)) \<and>
   0 < energy (snd (calculateReward winStep ''move_down'' (3, 3) maze5 noEvents)) \<and>
   moves winStep \<le> 600 \<and> stepsWithoutProgress winStep \<le> 15 \<and>
   100 + 997 / 10 - 113 / 20 - 1 / 10
     \<le> fst (calculateReward winStep ''move_down'' (3, 3) maze5 noEvents) \<and>
   100 \<le> fst (calculateReward winStep ''move_down'' (3, 3) maze5 noEvents)"
proof -
  have d: "position dyingStep = (1, 2)"
    "energy (snd (calculateReward dyingStep ''move_right'' (1, 2) maze5 noEvents)) \<le> 0"
    "(1, 2) \<noteq> primaryGoal dyingStep"
    by (simp_all add: dyingStep_def reward_defs)
  have w: "position winStep = (3, 3)" "(3, 3) = primaryGoal winStep"
    "0 < health (snd (calculateReward winStep ''move_down'' (3, 3) maze5 noEvents))"
    "0 < energy (snd (calculateReward winStep ''move_down'' (3, 3) maze5 noEvents))"
    "moves winStep = 3" "stepsWithoutProgress winStep = 0" "gameMode winStep = Classic"
    by (simp_all add: winStep_def reward_defs)
  show ?thesis
    using terminal_reward_dominance [of True "QLearningAgent 5 5 noOptions" "(2, 3)" "(3, 3)"
        maze5 True "HybridMazeAgent 5 5 noOptions" dyingStep "''move_right''" "(1, 2)" maze5
        noEvents "fst (calculateReward dyingStep ''move_right'' (1, 2) maze5 noEvents)"
        "snd (calculateReward dyingStep ''move_right'' (1, 2) maze5 noEvents)"]
      terminal_reward_dominance [of False "QLearningAgent 5 5 noOptions" "(1, 1)" "(1, 2)"
        maze5 True "HybridMazeAgent 5 5 noOptions" winStep "''move_down''" "(3, 3)" maze5
        noEvents "fst (calculateReward winStep ''move_down'' (3, 3) maze5 noEvents)"
        "snd (calculateReward winStep ''move_down'' (3, 3) maze5 noEvents)"]
      d w
    by simp
qed


section \<open>Scheduler: auto-tune\<close>

lemma st_success_eq:
  "st_success (stats sch) =
     real (length (filter ep_win (history sch)))
       / real (if length (history sch) = 0 then 1 else length (history sch))"
  by (simp add: stats_def Let_def)

lemma recordEpisode_history:
  "history (recordEpisode sch ep) =
     (if length (history sch) \<ge> window sch then tl (history sch @ [ep]) else history sch @ [ep])"
  by (auto simp: recordEpisode_def Let_def)

lemma recordEpisode_frame:
  "window (recordEpisode sch ep) = window sch" "minDecay (recordEpisode sch ep) = minDecay sch"
  "maxDecay (recordEpisode sch ep) = maxDecay sch" "targetEnd (recordEpisode sch ep) = targetEnd sch"
  "s_gameMode (recordEpisode sch ep) = s_gameMode sch"
  by (simp_all add: recordEpisode_def Let_def)

lemma fst_onEpisodeEnd: "fst (onEpisodeEnd sch ag ep) = recordEpisode sch ep"
  by (simp add: onEpisodeEnd_def Let_def case_prod_beta)

lemma record_sched:
  assumes "k + j = 20" and "0 < k"
  shows "recordEpisode (sched k j) winEp = sched (k - 1) (j + 1)"
proof -
  obtain k' where k: "k = Suc k'" using assms(2) by (cases k) auto
  have "replicate j winEp @ [winEp] = replicate (j + 1) winEp"
    by (simp add: replicate_append_same)
  then show ?thesis
    using assms(1) by (simp add: recordEpisode_def sched_def AutoEpsilonScheduler_def Let_def k)
qed

lemma success_sched:
  assumes "k + j = 20"
  shows "st_success (stats (sched k j)) = real j / 20"
    and "length (history (sched k j)) = 20"
  using assms by (simp_all add: st_success_eq sched_def lossEp_def winEp_def)


lemma snd_onEpisodeEnd:
  fixes sch :: scheduler and ag :: tuned and ep :: episode
  defines "sch' \<equiv> recordEpisode sch ep"
  defines "full \<equiv> real (length (history sch')) \<ge> real (window sch') / 2"
  defines "hi \<equiv> st_success (stats sch') \<ge> 0.8 \<and> full"
  defines "lo \<equiv> st_success (stats sch') \<le> 0.1 \<and> full"
  defines "e1 \<equiv> if hi then max (epsilonMin ag) (epsilon ag * 0.9) else epsilon ag"
  defines "d1 \<equiv> if hi then clampDecay sch' (epsilonDecay ag * 0.97) else epsilonDecay ag"
  defines "e2 \<equiv> if lo then min 0.95 (epsilon ag + (if s_gameMode sch' = Fog then 0.05 else 0.1)) else e1"
  defines "d2 \<equiv> if lo then clampDecay sch' ((d1 + 1) / 2) else d1"
  shows "snd (onEpisodeEnd sch ag ep) =
           \<lparr>epsilon = e2, epsilonMin = min e2 (max 0.01 (targetEnd sch')),
            epsilonDecay = clampDecay sch' d2\<rparr>"
  unfolding onEpisodeEnd_def sch'_def full_def hi_def lo_def e1_def d1_def e2_def d2_def
  by (cases ag) (simp add: Let_def)


lemma sched_params:
  "targetEnd (sched k j) = 0.05" "window (sched k j) = 20" "s_gameMode (sched k j) = Classic"
  "clampDecay (sched k j) d = min 0.9999 (max 0.9 d)"
  by (simp_all add: sched_def AutoEpsilonScheduler_def getTargetEnd_def clampDecay_def)

lemma autotune_steps:
  "onEpisodeEnd (sched 20 0) \<lparr>epsilon = 1 / 20, epsilonMin = 1 / 20, epsilonDecay = 9999 / 10000\<rparr> winEp =
     (sched 19 1, \<lparr>epsilon = 3 / 20, epsilonMin = 1 / 20, epsilonDecay = 9999 / 10000\<rparr>)"
  "onEpisodeEnd (sched 19 1) \<lparr>epsilon = 3 / 20, epsilonMin = 1 / 20, epsilonDecay = 9999 / 10000\<rparr> winEp =
     (sched 18 2, \<lparr>epsilon = 1 / 4, epsilonMin = 1 / 20, epsilonDecay = 9999 / 10000\<rparr>)"
  "onEpisodeEnd (sched 18 2) \<lparr>epsilon = 1 / 4, epsilonMin = 1 / 20, epsilonDecay = 9999 / 10000\<rparr> winEp =
     (sched 17 3, \<lparr>epsilon = 1 / 4, epsilonMin = 1 / 20, epsilonDecay = 9999 / 10000\<rparr>)"
  "onEpisodeEnd (sched 17 3) \<lparr>epsilon = 1 / 4, epsilonMin = 1 / 20, epsilonDecay = 9999 / 10000\<rparr> winEp =
     (sched 16 4, \<lparr>epsilon = 1 / 4, epsilonMin = 1 / 20, epsilonDecay = 9999 / 10000\<rparr>)"
  "onEpisodeEnd (sched 16 4) \<lparr>epsilon = 1 / 4, epsilonMin = 1 / 20, epsilonDecay = 9999 / 10000\<rparr> winEp =
     (sched 15 5, \<lparr>epsilon = 1 / 4, epsilonMin = 1 / 20, epsilonDecay = 9999 / 10000\<rparr>)"
  "onEpisodeEnd (sched 15 5) \<lparr>epsilon = 1 / 4, epsilonMin = 1 / 20, epsilonDecay = 9999 / 10000\<rparr> winEp =
     (sched 14 6, \<lparr>epsilon = 1 / 4, epsilonMin = 1 / 20, epsilonDecay = 9999 / 10000\<rparr>)"
  "onEpisodeEnd (sched 14 6) \<lparr>epsilon = 1 / 4, epsilonMin = 1 / 20, epsilonDecay = 9999 / 10000\<rparr> winEp =
     (sched 13 7, \<lparr>epsilon = 1 / 4, epsilonMin = 1 / 20, epsilonDecay = 9999 / 10000\<rparr>)"
  "onEpisodeEnd (sched 13 7) \<lparr>epsilon = 1 / 4, epsilonMin = 1 / 20, epsilonDecay = 9999 / 10000\<rparr> winEp =
     (sched 12 8, \<lparr>epsilon = 1 / 4, epsilonMin = 1 / 20, epsilonDecay = 9999 / 10000\<rparr>)"
  "onEpisodeEnd (sched 12 8) \<lparr>epsilon = 1 / 4, epsilonMin = 1 / 20, epsilonDecay = 9999 / 10000\<rparr> winEp =
     (sched 11 9, \<lparr>epsilon = 1 / 4, epsilonMin = 1 / 20, epsilonDecay = 9999 / 10000\<rparr>)"
  "onEpisodeEnd (sched 11 9) \<lparr>epsilon = 1 / 4, epsilonMin = 1 / 20, epsilonDecay = 9999 / 10000\<rparr> winEp =
     (sched 10 10, \<lparr>epsilon = 1 / 4, epsilonMin = 1 / 20, epsilonDecay = 9999 / 10000\<rparr>)"
  "onEpisodeEnd (sched 10 10) \<lparr>epsilon = 1 / 4, epsilonMin = 1 / 20, epsilonDecay = 9999 / 10000\<rparr> winEp =
     (sched 9 11, \<lparr>epsilon = 1 / 4, epsilonMin = 1 / 20, epsilonDecay = 9999 / 10000\<rparr>)"
  "onEpisodeEnd (sched 9 11) \<lparr>epsilon = 1 / 4, epsilonMin = 1 / 20, epsilonDecay = 9999 / 10000\<rparr> winEp =
     (sched 8 12, \<lparr>epsilon = 1 / 4, epsilonMin = 1 / 20, epsilonDecay = 9999 / 10000\<rparr>)"
  "onEpisodeEnd (sched 8 12) \<lparr>epsilon = 1 / 4, epsilonMin = 1 / 20, epsilonDecay = 9999 / 10000\<rparr> winEp =
     (sched 7 13, \<lparr>epsilon = 1 / 4, epsilonMin = 1 / 20, epsilonDecay = 9999 / 10000\<rparr>)"
  "onEpisodeEnd (sched 7 13) \<lparr>epsilon = 1 / 4, epsilonMin = 1 / 20, epsilonDecay = 9999 / 10000\<rparr> winEp =
     (sched 6 14, \<lparr>epsilon = 1 / 4, epsilonMin = 1 / 20, epsilonDecay = 9999 / 10000\<rparr>)"
  "onEpisodeEnd (sched 6 14) \<lparr>epsilon = 1 / 4, epsilonMin = 1 / 20, epsilonDecay = 9999 / 10000\<rparr> winEp =
     (sched 5 15, \<lparr>epsilon = 1 / 4, epsilonMin = 1 / 20, epsilonDecay = 9999 / 10000\<rparr>)"
  "onEpisodeEnd (sched 5 15) \<lparr>epsilon = 1 / 4, epsilonMin = 1 / 20, epsilonDecay = 9999 / 10000\<rparr> winEp =
     (sched 4 16, \<lparr>epsilon = 9 / 40, epsilonMin = 1 / 20, epsilonDecay = 969903 / 1000000\<rparr>)"
  "onEpisodeEnd (sched 4 16) \<lparr>epsilon = 9 / 40, epsilonMin = 1 / 20, epsilonDecay = 969903 / 1000000\<rparr> winEp =
     (sched 3 17, \<lparr>epsilon = 81 / 400, epsilonMin = 1 / 20, epsilonDecay = 94080591 / 100000000\<rparr>)"
  "onEpisodeEnd (sched 3 17) \<lparr>epsilon = 81 / 400, epsilonMin = 1 / 20, epsilonDecay = 94080591 / 100000000\<rparr> winEp =
     (sched 2 18, \<lparr>epsilon = 729 / 4000, epsilonMin = 1 / 20, epsilonDecay = 9125817327 / 10000000000\<rparr>)"
  "onEpisodeEnd (sched 2 18) \<lparr>epsilon = 729 / 4000, epsilonMin = 1 / 20, epsilonDecay = 9125817327 / 10000000000\<rparr> winEp =
     (sched 1 19, \<lparr>epsilon = 6561 / 40000, epsilonMin = 1 / 20, epsilonDecay = 9 / 10\<rparr>)"
  "onEpisodeEnd (sched 1 19) \<lparr>epsilon = 6561 / 40000, epsilonMin = 1 / 20, epsilonDecay = 9 / 10\<rparr> winEp =
     (sched 0 20, \<lparr>epsilon = 59049 / 400000, epsilonMin = 1 / 20, epsilonDecay = 9 / 10\<rparr>)"
  by (simp_all add: prod_eq_iff fst_onEpisodeEnd snd_onEpisodeEnd record_sched success_sched sched_params
      numeral_2_eq_2 [symmetric])

lemma replicate_20: "replicate 20 x = [x, x, x, x, x, x, x, x, x, x, x, x, x, x, x, x, x, x, x, x]"
  by (simp add: numeral_eq_Suc)

text \<open>
  C9, as stated, fails. With a window of 20 losses and epsilon 0.05, a run of 20
  consecutive wins first meets a windowed success rate of 5% and of 10%, which raises
  epsilon twice by 0.1, and shrinks it by 10% only at the last five wins: epsilon ends at
  0.25 * 0.9^5 = 0.1476225, above its value 0.05 before the run.
\<close>

theorem autotune_epsilon_rises:
  "epsilon resetAgent = 1 / 20 \<and>
   epsilon (snd (onEpisodes (sched 20 0) resetAgent (replicate 20 winEp))) = 59049 / 400000"
  by (simp add: replicate_20 autotune_steps [simplified] resetAgent_def)


lemma success_all_wins:
  assumes "list_all ep_win (history sch)" and "history sch \<noteq> []"
  shows "st_success (stats sch) = 1"
proof -
  have "filter ep_win (history sch) = history sch"
    using assms(1) by (simp add: list_all_iff)
  then show ?thesis
    using assms(2) by (simp add: st_success_eq)
qed

lemma recordEpisode_all_wins:
  assumes "list_all ep_win (history sch)" and "ep_win ep" and "window sch = 20"
  shows "list_all ep_win (history (recordEpisode sch ep))"
    and "history (recordEpisode sch ep) \<noteq> []"
proof -
  have a: "list_all ep_win (history sch @ [ep])"
    using assms by simp
  then have "list_all ep_win (tl (history sch @ [ep]))"
    by (metis list.sel(2) list.set_sel(2) list_all_iff)
  with a show "list_all ep_win (history (recordEpisode sch ep))"
    by (simp add: recordEpisode_history)
  show "history (recordEpisode sch ep) \<noteq> []"
    using assms(3) by (cases "history sch") (auto simp: recordEpisode_history)
qed

lemma success_three_wins:
  assumes "length (history sch) \<le> 20" and "3 \<le> length (filter ep_win (history sch))"
  shows "1 / 10 < st_success (stats sch)"
proof -
  let ?w = "length (filter ep_win (history sch))" and ?n = "length (history sch)"
  have "?w \<le> ?n"
    by (rule length_filter_le)
  then have n: "0 < ?n" "?n < 10 * ?w"
    using assms by linarith+
  then have "real ?n < 10 * real ?w"
    by (metis of_nat_less_iff of_nat_mult of_nat_numeral)
  then have "1 / 10 < real ?w / real ?n"
    using n(1) by (simp add: field_simps)
  then show ?thesis
    using n(1) by (auto simp: st_success_eq)
qed

lemma recordEpisode_three_wins:
  assumes "window sch = 20" and "ep_win ep"
    and "length (history sch) \<le> 20" and "3 \<le> length (filter ep_win (history sch))"
  shows "length (history (recordEpisode sch ep)) \<le> 20"
    and "3 \<le> length (filter ep_win (history (recordEpisode sch ep)))"
proof -
  show "length (history (recordEpisode sch ep)) \<le> 20"
    using assms(1,3) by (simp add: recordEpisode_history)
  show "3 \<le> length (filter ep_win (history (recordEpisode sch ep)))"
  proof (cases "history sch")
    case Nil
    then show ?thesis using assms(4) by simp
  next
    case (Cons x xs)
    then show ?thesis
      using assms by (simp add: recordEpisode_history split: if_splits)
  qed
qed

lemma wins_neverLow:
  assumes "window sch = 20" and "list_all ep_win eps"
    and "list_all ep_win (history sch) \<or>
         length (history sch) \<le> 20 \<and> 3 \<le> length (filter ep_win (history sch))"
  shows "neverLow sch eps"
  using assms
proof (induction eps arbitrary: sch)
  case Nil
  then show ?case by simp
next
  case (Cons ep eps)
  let ?s = "recordEpisode sch ep"
  from Cons.prems(2) have w: "ep_win ep" "list_all ep_win eps"
    by simp_all
  have inv: "list_all ep_win (history ?s) \<or>
      length (history ?s) \<le> 20 \<and> 3 \<le> length (filter ep_win (history ?s))"
    using Cons.prems(3) recordEpisode_all_wins(1) [OF _ w(1) Cons.prems(1)]
      recordEpisode_three_wins [OF Cons.prems(1) w(1)]
    by blast
  have "1 / 10 < st_success (stats ?s)"
    using Cons.prems(3)
  proof
    assume "list_all ep_win (history sch)"
    then have "st_success (stats ?s) = 1"
      using recordEpisode_all_wins [OF _ w(1) Cons.prems(1)] by (intro success_all_wins)
    then show ?thesis by simp
  next
    assume "length (history sch) \<le> 20 \<and> 3 \<le> length (filter ep_win (history sch))"
    then show ?thesis
      using recordEpisode_three_wins [OF Cons.prems(1) w(1)] by (intro success_three_wins) simp_all
  qed
  then have "\<not> lowSuccess ?s"
    by (simp add: lowSuccess_def)
  moreover have "neverLow ?s eps"
    using Cons.prems(1) w(2) inv by (intro Cons.IH) (simp_all add: recordEpisode_frame)
  ultimately show ?case by simp
qed

lemma clamp_le:
  fixes d :: real
  assumes "9 / 10 \<le> d"
  shows "min (9999 / 10000) (max (9 / 10) d) \<le> d"
    and "min (9999 / 10000) (max (9 / 10) (min (9999 / 10000) (max (9 / 10) (d * (97 / 100))))) \<le> d"
    and "9 / 10 \<le> min (9999 / 10000) (max (9 / 10) (x::real))"
  using assms by (simp_all add: min_def max_def)

lemma quiet_step:
  assumes std: "window sch = 20" "minDecay sch = 9 / 10" "maxDecay sch = 9999 / 10000"
    and quiet: "\<not> lowSuccess (recordEpisode sch ep)"
    and ag: "0 \<le> epsilon ag" "epsilonMin ag \<le> epsilon ag" "9 / 10 \<le> epsilonDecay ag"
  shows "epsilon (snd (onEpisodeEnd sch ag ep)) \<le> epsilon ag"
    and "epsilonDecay (snd (onEpisodeEnd sch ag ep)) \<le> epsilonDecay ag"
    and "0 \<le> epsilon (snd (onEpisodeEnd sch ag ep))"
    and "epsilonMin (snd (onEpisodeEnd sch ag ep)) \<le> epsilon (snd (onEpisodeEnd sch ag ep))"
    and "9 / 10 \<le> epsilonDecay (snd (onEpisodeEnd sch ag ep))"
proof -
  let ?s = "recordEpisode sch ep"
  have cl: "clampDecay ?s = (\<lambda>d. min (9999 / 10000) (max (9 / 10) d))"
    by (simp add: clampDecay_def recordEpisode_frame std fun_eq_iff)
  let ?full = "real (length (history ?s)) \<ge> real (window ?s) / 2"
  let ?hi = "st_success (stats ?s) \<ge> 0.8 \<and> ?full"
  have lo: "(st_success (stats ?s) \<le> 0.1 \<and> ?full) = False"
    using quiet by (simp add: lowSuccess_def)
  let ?e = "if ?hi then max (epsilonMin ag) (epsilon ag * 0.9) else epsilon ag"
  let ?d = "if ?hi then min (9999 / 10000) (max (9 / 10) (epsilonDecay ag * 0.97))
            else epsilonDecay ag"
  have r: "snd (onEpisodeEnd sch ag ep) =
      \<lparr>epsilon = ?e, epsilonMin = min ?e (max 0.01 (targetEnd ?s)),
       epsilonDecay = min (9999 / 10000) (max (9 / 10) ?d)\<rparr>"
    unfolding snd_onEpisodeEnd lo cl if_False ..
  have e: "?e \<le> epsilon ag" "0 \<le> ?e"
    using ag(1,2) by (simp_all add: le_max_iff_disj)
  show "epsilon (snd (onEpisodeEnd sch ag ep)) \<le> epsilon ag"
    and "0 \<le> epsilon (snd (onEpisodeEnd sch ag ep))"
    unfolding r using e by simp_all
  show "epsilonMin (snd (onEpisodeEnd sch ag ep)) \<le> epsilon (snd (onEpisodeEnd sch ag ep))"
    unfolding r by simp
  show "epsilonDecay (snd (onEpisodeEnd sch ag ep)) \<le> epsilonDecay ag"
    unfolding r using clamp_le(1,2) [OF ag(3)] by (cases ?hi) simp_all
  show "9 / 10 \<le> epsilonDecay (snd (onEpisodeEnd sch ag ep))"
    unfolding r using clamp_le(3) by simp
qed

lemma epsilonMin_le_epsilon:
  "epsilonMin (snd (onEpisodeEnd sch ag ep)) \<le> epsilon (snd (onEpisodeEnd sch ag ep))"
  by (simp add: onEpisodeEnd_def Let_def case_prod_beta)


lemma onEpisodes_Cons:
  "onEpisodes sch ag (ep # eps) =
     onEpisodes (recordEpisode sch ep) (snd (onEpisodeEnd sch ag ep)) eps"
  by (simp add: case_prod_beta fst_onEpisodeEnd)

lemma quiet_run:
  assumes "window sch = 20" "minDecay sch = 9 / 10" "maxDecay sch = 9999 / 10000"
    and "neverLow sch eps"
    and "0 \<le> epsilon ag" "epsilonMin ag \<le> epsilon ag" "9 / 10 \<le> epsilonDecay ag"
  shows "epsilonDecay (snd (onEpisodes sch ag eps)) \<le> epsilonDecay ag \<and>
         epsilon (snd (onEpisodes sch ag eps)) \<le> epsilon ag"
  using assms
proof (induction eps arbitrary: sch ag)
  case Nil
  then show ?case by simp
next
  case (Cons ep eps)
  from Cons.prems(4) have q: "\<not> lowSuccess (recordEpisode sch ep)"
    "neverLow (recordEpisode sch ep) eps"
    by simp_all
  note st = quiet_step [OF Cons.prems(1-3) q(1) Cons.prems(5-7)]
  have "epsilonDecay (snd (onEpisodes (recordEpisode sch ep) (snd (onEpisodeEnd sch ag ep)) eps))
          \<le> epsilonDecay (snd (onEpisodeEnd sch ag ep)) \<and>
        epsilon (snd (onEpisodes (recordEpisode sch ep) (snd (onEpisodeEnd sch ag ep)) eps))
          \<le> epsilon (snd (onEpisodeEnd sch ag ep))"
    using Cons.prems(1-3) q(2) st(3,4,5)
    by (intro Cons.IH) (simp_all add: recordEpisode_frame)
  then show ?case
    unfolding onEpisodes_Cons using st(1,2) by linarith
qed

lemma fst_onEpisodes: "fst (onEpisodes sch ag xs) = foldl recordEpisode sch xs"
  by (induction xs arbitrary: sch ag) (simp_all add: case_prod_beta fst_onEpisodeEnd)

lemma onEpisodes_append:
  "onEpisodes sch ag (xs @ ys) =
     onEpisodes (foldl recordEpisode sch xs) (snd (onEpisodes sch ag xs)) ys"
  by (induction xs arbitrary: sch ag) (simp_all add: case_prod_beta fst_onEpisodeEnd)

lemma foldl_record_frame:
  "window (foldl recordEpisode sch xs) = window sch"
  "minDecay (foldl recordEpisode sch xs) = minDecay sch"
  "maxDecay (foldl recordEpisode sch xs) = maxDecay sch"
  "targetEnd (foldl recordEpisode sch xs) = targetEnd sch"
  "s_gameMode (foldl recordEpisode sch xs) = s_gameMode sch"
  by (induction xs arbitrary: sch) (simp_all add: recordEpisode_frame)

lemma foldl_record_history:
  assumes "window sch = 20" and "length (history sch) \<le> 20"
  shows "history (foldl recordEpisode sch xs) =
           drop (length (history sch) + length xs - 20) (history sch @ xs)"
  using assms
proof (induction xs arbitrary: sch)
  case Nil
  then show ?case by simp
next
  case (Cons x xs)
  let ?s = "recordEpisode sch x"
  have w: "window ?s = 20"
    using Cons.prems(1) by (simp add: recordEpisode_frame)
  show ?case
  proof (cases "length (history sch) < 20")
    case True
    then have h: "history ?s = history sch @ [x]"
      using Cons.prems(1) by (simp add: recordEpisode_history)
    then have "length (history ?s) \<le> 20"
      using True by simp
    from Cons.IH [OF w this] show ?thesis
      by (simp add: h)
  next
    case False
    then have l: "length (history sch) = 20"
      using Cons.prems(2) by simp
    then obtain a t where at: "history sch = a # t"
      by (cases "history sch") auto
    have h: "history ?s = t @ [x]"
      using Cons.prems(1) l by (simp add: recordEpisode_history at)
    have "length (history ?s) \<le> 20"
      using l by (simp add: h at)
    from Cons.IH [OF w this] show ?thesis
      using l by (simp add: h at)
  qed
qed

lemma wins_window:
  assumes "window sch = 20" and "length (history sch) \<le> 20"
    and "list_all ep_win xs" and "j \<le> length xs" and "j \<le> 20"
  shows "length (history (foldl recordEpisode sch xs)) \<le> 20"
    and "j \<le> length (filter ep_win (history (foldl recordEpisode sch xs)))"
proof -
  let ?m = "length (history sch) + length xs - 20"
  note h = foldl_record_history [OF assms(1,2), of xs]
  show "length (history (foldl recordEpisode sch xs)) \<le> 20"
    unfolding h by simp
  have "list_all ep_win (drop (?m - length (history sch)) xs)"
    using assms(3) by (auto simp: list_all_iff dest: in_set_dropD)
  then have "filter ep_win (drop (?m - length (history sch)) xs)
      = drop (?m - length (history sch)) xs"
    by (simp add: list_all_iff)
  then have "length (filter ep_win (history (foldl recordEpisode sch xs)))
      = length (filter ep_win (drop ?m (history sch))) + (length xs - (?m - length (history sch)))"
    unfolding h by simp
  then show "j \<le> length (filter ep_win (history (foldl recordEpisode sch xs)))"
    using assms(2,4,5) by linarith
qed

lemma clamp_bounds:
  fixes x :: real
  shows "9 / 10 \<le> min (9999 / 10000) (max (9 / 10) x)"
    and "min (9999 / 10000) (max (9 / 10) x) \<le> 9999 / 10000"
  by (simp_all add: min_def max_def)

lemma clamp_shrink:
  fixes d u :: real
  assumes "d \<le> u"
  shows "min (9999 / 10000) (max (9 / 10) (min (9999 / 10000) (max (9 / 10) (d * (97 / 100)))))
           \<le> max (9 / 10) (97 / 100 * u)"
  using assms by (simp add: min_def max_def)

lemma step_decay_bounds:
  assumes "minDecay sch = 9 / 10" and "maxDecay sch = 9999 / 10000"
  shows "9 / 10 \<le> epsilonDecay (snd (onEpisodeEnd sch ag ep))"
    and "epsilonDecay (snd (onEpisodeEnd sch ag ep)) \<le> 9999 / 10000"
proof -
  have cl: "clampDecay (recordEpisode sch ep) = (\<lambda>d. min (9999 / 10000) (max (9 / 10) d))"
    by (simp add: clampDecay_def recordEpisode_frame assms fun_eq_iff)
  show "9 / 10 \<le> epsilonDecay (snd (onEpisodeEnd sch ag ep))"
    and "epsilonDecay (snd (onEpisodeEnd sch ag ep)) \<le> 9999 / 10000"
    unfolding snd_onEpisodeEnd cl by (simp_all only: tuned.simps clamp_bounds)
qed

lemma run_decay_bounds:
  assumes "minDecay sch = 9 / 10" and "maxDecay sch = 9999 / 10000" and "xs \<noteq> []"
  shows "9 / 10 \<le> epsilonDecay (snd (onEpisodes sch ag xs)) \<and>
         epsilonDecay (snd (onEpisodes sch ag xs)) \<le> 9999 / 10000"
  using assms
proof (induction xs arbitrary: sch ag)
  case Nil
  then show ?case by simp
next
  case (Cons x xs)
  show ?case
  proof (cases "xs = []")
    case True
    then show ?thesis
      using step_decay_bounds [OF Cons.prems(1,2), of ag x] by (simp add: case_prod_beta)
  next
    case False
    with Cons.prems(1,2) show ?thesis
      unfolding onEpisodes_Cons by (intro Cons.IH) (simp_all add: recordEpisode_frame)
  qed
qed

lemma hi_step_decay:
  assumes std: "window sch = 20" "minDecay sch = 9 / 10" "maxDecay sch = 9999 / 10000"
    and w: "length (history (recordEpisode sch ep)) \<le> 20"
      "16 \<le> length (filter ep_win (history (recordEpisode sch ep)))"
    and d: "epsilonDecay ag \<le> u"
  shows "epsilonDecay (snd (onEpisodeEnd sch ag ep)) \<le> max (9 / 10) (97 / 100 * u)"
proof -
  let ?s = "recordEpisode sch ep"
  let ?w = "length (filter ep_win (history ?s))" and ?n = "length (history ?s)"
  have "?w \<le> ?n"
    by (rule length_filter_le)
  then have n: "0 < ?n" "10 \<le> ?n" "4 * ?n \<le> 5 * ?w"
    using w by linarith+
  then have "4 * real ?n \<le> 5 * real ?w"
    by (metis of_nat_le_iff of_nat_mult of_nat_numeral)
  then have "4 / 5 \<le> real ?w / real ?n"
    using n(1) by (simp add: field_simps)
  then have su: "4 / 5 \<le> st_success (stats ?s)"
    using n(1) by (auto simp: st_success_eq)
  have full: "real (window ?s) / 2 \<le> real ?n"
    using n(2) by (simp add: recordEpisode_frame std)
  have hi: "(st_success (stats ?s) \<ge> 0.8 \<and> real ?n \<ge> real (window ?s) / 2) = True"
    using su full by simp
  have lo: "(st_success (stats ?s) \<le> 0.1 \<and> real ?n \<ge> real (window ?s) / 2) = False"
    using su by simp
  have cl: "clampDecay ?s = (\<lambda>d. min (9999 / 10000) (max (9 / 10) d))"
    by (simp add: clampDecay_def recordEpisode_frame std fun_eq_iff)
  have "epsilonDecay (snd (onEpisodeEnd sch ag ep)) =
      min (9999 / 10000) (max (9 / 10)
        (min (9999 / 10000) (max (9 / 10) (epsilonDecay ag * 0.97))))"
    unfolding snd_onEpisodeEnd hi lo cl if_True if_False by simp
  then show ?thesis
    using clamp_shrink [OF d] by simp
qed

lemma tail_wins_decay:
  fixes sch :: scheduler and f :: "real \<Rightarrow> real"
  defines "f \<equiv> \<lambda>u. max (9 / 10) (97 / 100 * u)"
  assumes "window sch = 20" "minDecay sch = 9 / 10" "maxDecay sch = 9999 / 10000"
    and "length (history sch) \<le> 20"
    and "list_all ep_win xs" and "15 \<le> length xs" and "list_all ep_win ys"
    and "epsilonDecay a \<le> u"
  shows "epsilonDecay (snd (onEpisodes (foldl recordEpisode sch xs) a ys)) \<le> (f ^^ length ys) u"
  using assms(6-9)
proof (induction ys arbitrary: xs a u)
  case Nil
  then show ?case by simp
next
  case (Cons y ys)
  let ?S = "foldl recordEpisode sch xs"
  let ?a = "snd (onEpisodeEnd ?S a y)"
  from Cons.prems(3) have y: "ep_win y" "list_all ep_win ys"
    by simp_all
  have xs': "list_all ep_win (xs @ [y])" "16 \<le> length (xs @ [y])" "15 \<le> length (xs @ [y])"
    "(16::nat) \<le> 20"
    using Cons.prems(1,2) y(1) by simp_all
  have r: "recordEpisode ?S y = foldl recordEpisode sch (xs @ [y])"
    by simp
  have "epsilonDecay ?a \<le> max (9 / 10) (97 / 100 * u)"
    using wins_window [OF assms(2,5) xs'(1,2,4)] Cons.prems(4)
    by (intro hi_step_decay) (simp_all only: foldl_record_frame assms(2-4) r)
  then have "epsilonDecay ?a \<le> f u"
    by (simp add: f_def)
  from Cons.IH [OF xs'(1,3) y(2) this]
  show ?case
    unfolding onEpisodes_Cons r by (simp add: funpow_swap1)
qed

lemma twenty_wins_decay:
  assumes "window sch = 20" "minDecay sch = 9 / 10" "maxDecay sch = 9999 / 10000"
    and "length (history sch) \<le> 20"
    and "list_all ep_win eps" and "20 \<le> length eps" and "9 / 10 \<le> epsilonDecay ag"
  shows "epsilonDecay (snd (onEpisodes sch ag eps)) \<le> epsilonDecay ag"
proof -
  let ?xs = "take (length eps - 5) eps" and ?ys = "drop (length eps - 5) eps"
  have xs: "list_all ep_win ?xs" "15 \<le> length ?xs" "?xs \<noteq> []"
    and ys: "list_all ep_win ?ys" "length ?ys = 5"
    using assms(5,6) by (auto simp: list_all_iff dest: in_set_takeD in_set_dropD)
  have "epsilonDecay (snd (onEpisodes sch ag ?xs)) \<le> 9999 / 10000"
    using run_decay_bounds [OF assms(2,3) xs(3)] by simp
  from tail_wins_decay [OF assms(1-4) xs(1,2) ys(1) this]
  have "epsilonDecay (snd (onEpisodes sch ag (?xs @ ?ys))) \<le> 9 / 10"
    unfolding onEpisodes_append ys(2) by (simp add: numeral_eq_Suc)
  then show ?thesis
    using assms(7) by simp
qed


lemma eps_update:
  fixes e m b T :: real
  assumes "0 \<le> e" and "m \<le> e" and "0 \<le> b"
  shows "(if lo then min (95 / 100) (e + b) else if hi then max m (e * (9 / 10)) else e) \<le> e + b"
    and "0 \<le> (if lo then min (95 / 100) (e + b) else if hi then max m (e * (9 / 10)) else e)"
  using assms by (auto simp: min_def max_def)

lemma step_eps:
  fixes sch :: scheduler
  defines "bump \<equiv> if s_gameMode sch = Fog then 5 / 100 else 1 / 10"
  assumes "0 \<le> epsilon ag" and "epsilonMin ag \<le> epsilon ag"
  shows "epsilon (snd (onEpisodeEnd sch ag ep)) \<le> epsilon ag + bump"
    and "0 \<le> epsilon (snd (onEpisodeEnd sch ag ep))"
    and "epsilonMin (snd (onEpisodeEnd sch ag ep)) \<le> epsilon (snd (onEpisodeEnd sch ag ep))"
    and "epsilonMin (snd (onEpisodeEnd sch ag ep)) \<le> max (1 / 100) (targetEnd sch)"
proof -
  let ?s = "recordEpisode sch ep"
  let ?full = "real (length (history ?s)) \<ge> real (window ?s) / 2"
  let ?hi = "st_success (stats ?s) \<ge> 0.8 \<and> ?full"
  let ?lo = "st_success (stats ?s) \<le> 0.1 \<and> ?full"
  let ?e = "if ?lo then min (95 / 100) (epsilon ag + bump)
            else if ?hi then max (epsilonMin ag) (epsilon ag * (9 / 10)) else epsilon ag"
  have b: "0 \<le> bump"
    by (simp add: bump_def)
  have e: "epsilon (snd (onEpisodeEnd sch ag ep)) = ?e"
    and m: "epsilonMin (snd (onEpisodeEnd sch ag ep)) = min ?e (max (1 / 100) (targetEnd sch))"
    unfolding snd_onEpisodeEnd bump_def by (simp_all add: recordEpisode_frame)
  show "epsilon (snd (onEpisodeEnd sch ag ep)) \<le> epsilon ag + bump"
    and "0 \<le> epsilon (snd (onEpisodeEnd sch ag ep))"
    unfolding e by (rule eps_update [OF assms(2,3) b])+
  show "epsilonMin (snd (onEpisodeEnd sch ag ep)) \<le> epsilon (snd (onEpisodeEnd sch ag ep))"
    and "epsilonMin (snd (onEpisodeEnd sch ag ep)) \<le> max (1 / 100) (targetEnd sch)"
    unfolding m e by (rule min.cobounded1 min.cobounded2)+
qed

lemma run_eps:
  fixes sch :: scheduler
  defines "bump \<equiv> if s_gameMode sch = Fog then 5 / 100 else 1 / 10"
  assumes "0 \<le> epsilon ag" and "epsilonMin ag \<le> epsilon ag"
  shows "epsilon (snd (onEpisodes sch ag xs)) \<le> epsilon ag + real (length xs) * bump \<and>
         0 \<le> epsilon (snd (onEpisodes sch ag xs)) \<and>
         epsilonMin (snd (onEpisodes sch ag xs)) \<le> epsilon (snd (onEpisodes sch ag xs)) \<and>
         (xs \<noteq> [] \<longrightarrow>
            epsilonMin (snd (onEpisodes sch ag xs)) \<le> max (1 / 100) (targetEnd sch))"
  using assms(2,3)
proof (induction xs rule: rev_induct)
  case Nil
  then show ?case by simp
next
  case (snoc x xs)
  let ?S = "foldl recordEpisode sch xs" and ?a = "snd (onEpisodes sch ag xs)"
  from snoc.IH [OF snoc.prems]
  have i: "epsilon ?a \<le> epsilon ag + real (length xs) * bump" "0 \<le> epsilon ?a"
    "epsilonMin ?a \<le> epsilon ?a"
    by simp_all
  have r: "snd (onEpisodes sch ag (xs @ [x])) = snd (onEpisodeEnd ?S ?a x)"
    unfolding onEpisodes_append by (simp add: case_prod_beta)
  note st = step_eps [OF i(2,3), of ?S x, unfolded foldl_record_frame, folded bump_def]
  show ?case
    unfolding r using st i(1) by (simp add: algebra_simps)
qed

lemma neverLow_after_two:
  assumes "window sch = 20" and "length (history sch) \<le> 20"
    and "list_all ep_win xs" and "2 \<le> length xs" and "list_all ep_win ys"
  shows "neverLow (foldl recordEpisode sch xs) ys"
  using assms(3-5)
proof (induction ys arbitrary: xs)
  case Nil
  then show ?case by simp
next
  case (Cons y ys)
  let ?S = "foldl recordEpisode sch xs"
  from Cons.prems(3) have y: "ep_win y" "list_all ep_win ys"
    by simp_all
  have xs': "list_all ep_win (xs @ [y])" "3 \<le> length (xs @ [y])" "2 \<le> length (xs @ [y])"
    "(3::nat) \<le> 20"
    using Cons.prems(1,2) y(1) by simp_all
  have r: "recordEpisode ?S y = foldl recordEpisode sch (xs @ [y])"
    by simp
  have "1 / 10 < st_success (stats (recordEpisode ?S y))"
    unfolding r by (rule success_three_wins [OF wins_window [OF assms(1,2) xs'(1,2,4)]])
  then have "\<not> lowSuccess (recordEpisode ?S y)"
    by (simp add: lowSuccess_def)
  moreover have "neverLow (recordEpisode ?S y) ys"
    unfolding r by (rule Cons.IH [OF xs'(1,3) y(2)])
  ultimately show ?case by simp
qed

lemma hi_step_eps:
  assumes std: "window sch = 20"
    and w: "length (history (recordEpisode sch ep)) \<le> 20"
      "16 \<le> length (filter ep_win (history (recordEpisode sch ep)))"
    and e: "0 \<le> epsilon ag" "epsilon ag \<le> v" "epsilonMin ag \<le> T"
      "max (1 / 100) (targetEnd sch) \<le> T"
  shows "epsilon (snd (onEpisodeEnd sch ag ep)) \<le> max T (9 / 10 * v)"
    and "0 \<le> epsilon (snd (onEpisodeEnd sch ag ep))"
    and "epsilonMin (snd (onEpisodeEnd sch ag ep)) \<le> T"
proof -
  let ?s = "recordEpisode sch ep"
  let ?w = "length (filter ep_win (history ?s))" and ?n = "length (history ?s)"
  have "?w \<le> ?n"
    by (rule length_filter_le)
  then have n: "0 < ?n" "10 \<le> ?n" "4 * ?n \<le> 5 * ?w"
    using w by linarith+
  then have "4 * real ?n \<le> 5 * real ?w"
    by (metis of_nat_le_iff of_nat_mult of_nat_numeral)
  then have "4 / 5 \<le> real ?w / real ?n"
    using n(1) by (simp add: field_simps)
  then have su: "4 / 5 \<le> st_success (stats ?s)"
    using n(1) by (auto simp: st_success_eq)
  have full: "real (window ?s) / 2 \<le> real ?n"
    using n(2) by (simp add: recordEpisode_frame std)
  have hi: "(st_success (stats ?s) \<ge> 0.8 \<and> real ?n \<ge> real (window ?s) / 2) = True"
    using su full by simp
  have lo: "(st_success (stats ?s) \<le> 0.1 \<and> real ?n \<ge> real (window ?s) / 2) = False"
    using su by simp
  have ep: "epsilon (snd (onEpisodeEnd sch ag ep)) = max (epsilonMin ag) (epsilon ag * 0.9)"
    and em: "epsilonMin (snd (onEpisodeEnd sch ag ep)) =
      min (max (epsilonMin ag) (epsilon ag * 0.9)) (max 0.01 (targetEnd ?s))"
    unfolding snd_onEpisodeEnd hi lo if_True if_False by simp_all
  show "epsilon (snd (onEpisodeEnd sch ag ep)) \<le> max T (9 / 10 * v)"
    unfolding ep using e(2,3) by (auto simp: max_def)
  show "0 \<le> epsilon (snd (onEpisodeEnd sch ag ep))"
    unfolding ep using e(1) by (simp add: le_max_iff_disj)
  show "epsilonMin (snd (onEpisodeEnd sch ag ep)) \<le> T"
    unfolding em using e(4) by (simp add: recordEpisode_frame min_le_iff_disj)
qed

lemma max_shrink:
  fixes T v c :: real
  assumes "0 \<le> T" and "0 \<le> c" and "c \<le> 1"
  shows "max T (c * max T (9 / 10 * v)) \<le> max T (c * (9 / 10) * v)"
proof -
  have "c * T \<le> 1 * T"
    using assms by (intro mult_right_mono) simp_all
  moreover have "c * max T (9 / 10 * v) = max (c * T) (c * (9 / 10 * v))"
    using assms(2) by (simp add: max_mult_distrib_left)
  ultimately show ?thesis
    by (auto simp: max_def mult.assoc)
qed

lemma tail_wins_eps:
  assumes "window sch = 20" and "length (history sch) \<le> 20"
    and T: "max (1 / 100) (targetEnd sch) \<le> T"
    and "list_all ep_win xs" and "15 \<le> length xs" and "list_all ep_win ys"
    and "0 \<le> epsilon a" and "epsilon a \<le> v" and "epsilonMin a \<le> T"
  shows "epsilon (snd (onEpisodes (foldl recordEpisode sch xs) a ys))
           \<le> max T ((9 / 10) ^ length ys * v)"
  using assms(4-9)
proof (induction ys arbitrary: xs a v)
  case Nil
  then show ?case by (simp add: le_max_iff_disj)
next
  case (Cons y ys)
  let ?S = "foldl recordEpisode sch xs"
  let ?a = "snd (onEpisodeEnd ?S a y)"
  from Cons.prems(3) have y: "ep_win y" "list_all ep_win ys"
    by simp_all
  have xs': "list_all ep_win (xs @ [y])" "16 \<le> length (xs @ [y])" "15 \<le> length (xs @ [y])"
    "(16::nat) \<le> 20"
    using Cons.prems(1,2) y(1) by simp_all
  have r: "recordEpisode ?S y = foldl recordEpisode sch (xs @ [y])"
    by simp
  have T': "max (1 / 100) (targetEnd ?S) \<le> T" and w: "window ?S = 20"
    using T assms(1) by (simp_all only: foldl_record_frame)
  note h = hi_step_eps [OF w wins_window [OF assms(1,2) xs'(1,2,4), folded r]
      Cons.prems(4,5,6) T']
  have T0: "0 \<le> T"
    using T by simp
  have "epsilon (snd (onEpisodes (foldl recordEpisode sch (xs @ [y])) ?a ys))
      \<le> max T ((9 / 10) ^ length ys * max T (9 / 10 * v))"
    by (rule Cons.IH [OF xs'(1,3) y(2) h(2,1,3)])
  also have "\<dots> \<le> max T ((9 / 10) ^ length ys * (9 / 10) * v)"
    using T0 by (intro max_shrink) (simp_all add: power_le_one)
  finally show ?case
    unfolding onEpisodes_Cons r by (simp add: mult.assoc)
qed

lemma twenty_wins_eps:
  fixes sch :: scheduler
  defines "bump \<equiv> if s_gameMode sch = Fog then 5 / 100 else 1 / 10"
  assumes std: "window sch = 20" "minDecay sch = 9 / 10" "maxDecay sch = 9999 / 10000"
    and len: "length (history sch) \<le> 20"
    and wins: "list_all ep_win eps" "20 \<le> length eps"
    and ag: "0 \<le> epsilon ag" "epsilonMin ag \<le> epsilon ag"
  shows "epsilon (snd (onEpisodes sch ag eps))
           \<le> max (max (1 / 100) (targetEnd sch)) (59049 / 100000 * (epsilon ag + 2 * bump))"
proof -
  let ?A = "take 2 eps" and ?B = "take (length eps - 7) (drop 2 eps)"
  let ?C = "drop (length eps - 7) (drop 2 eps)"
  let ?T = "max (1 / 100) (targetEnd sch)"
  have split: "eps = (?A @ ?B) @ ?C"
    by (simp only: append_assoc append_take_drop_id)
  have A: "list_all ep_win ?A" "length ?A = 2" "?A \<noteq> []"
    and B: "list_all ep_win ?B"
    and C: "list_all ep_win ?C" "length ?C = 5"
    and AB: "list_all ep_win (?A @ ?B)" "15 \<le> length (?A @ ?B)" "?A @ ?B \<noteq> []"
    using wins by (auto simp: list_all_iff dest: in_set_takeD in_set_dropD)
  let ?a2 = "snd (onEpisodes sch ag ?A)" and ?S2 = "foldl recordEpisode sch ?A"
  let ?a15 = "snd (onEpisodes sch ag (?A @ ?B))"
  note r2 = run_eps [OF ag, of sch ?A, folded bump_def, unfolded A(2)]
  have e2: "epsilon ?a2 \<le> epsilon ag + 2 * bump" "0 \<le> epsilon ?a2"
    "epsilonMin ?a2 \<le> epsilon ?a2"
    using r2 by simp_all
  have d2: "9 / 10 \<le> epsilonDecay ?a2"
    using run_decay_bounds [OF std(2,3) A(3)] by simp
  have q: "neverLow ?S2 ?B"
    using A(2) by (intro neverLow_after_two [OF std(1) len A(1) _ B]) simp
  have "epsilon (snd (onEpisodes ?S2 ?a2 ?B)) \<le> epsilon ?a2"
    using quiet_run [OF _ _ _ q e2(2,3) d2] std by (simp add: foldl_record_frame)
  then have e15: "epsilon ?a15 \<le> epsilon ag + 2 * bump"
    unfolding onEpisodes_append using e2(1) by linarith
  note r15 = run_eps [OF ag, of sch "?A @ ?B"]
  have i15: "0 \<le> epsilon ?a15" "epsilonMin ?a15 \<le> ?T"
    using r15 AB(3) by blast+
  have "epsilon (snd (onEpisodes (foldl recordEpisode sch (?A @ ?B)) ?a15 ?C))
      \<le> max ?T ((9 / 10) ^ length ?C * (epsilon ag + 2 * bump))"
    by (rule tail_wins_eps [OF std(1) len order_refl AB(1,2) C(1) i15(1) e15 i15(2)])
  then have "epsilon (snd (onEpisodes sch ag ((?A @ ?B) @ ?C)))
      \<le> max ?T (59049 / 100000 * (epsilon ag + 2 * bump))"
    unfolding onEpisodes_append [of sch ag "?A @ ?B" ?C] C(2) by (simp add: power_divide)
  then show ?thesis
    unfolding split [symmetric] .
qed

text \<open>
  C9, amended. Take a scheduler with the constructor's window 20 and decay bounds 0.9 and
  0.9999, and an agent with \<open>0 \<le> epsilon\<close>, \<open>epsilonMin \<le> epsilon\<close> and
  \<open>decay \<ge> 0.9\<close>. After any run of episodes at none of which the low-success rule
  fires (windowed success at most 10% with the window at least half full), the agent's
  decay and epsilon are at most their values before the run. The rule fires at no
  episode of a run of consecutive wins, of any length, whenever the window before the
  run holds only wins (in particular none, as in a fresh scheduler) or holds at most 20
  episodes of which at least 3 are wins. After a run of at least 20 consecutive wins
  that starts from a window of at most 20 episodes, whatever they are, the decay is at
  most its value before the run, and epsilon is at most the larger of
  \<open>max 0.01 targetEnd\<close> and \<open>0.9^5 * (epsilon + 2 * bump)\<close>, with \<open>epsilon\<close> the value
  before the run and \<open>bump\<close> the step of the low-success rule (0.05 in fog mode, 0.1
  otherwise); so epsilon is at most its value before the run whenever this bound is.
  After every \<open>onEpisodeEnd\<close> call, for any scheduler and agent, epsilonMin is at
  most the current epsilon.
\<close>

theorem autotune_after_wins:
  assumes "window sch = 20" "minDecay sch = 9 / 10" "maxDecay sch = 9999 / 10000"
    and "0 \<le> epsilon ag" "epsilonMin ag \<le> epsilon ag" "9 / 10 \<le> epsilonDecay ag"
  shows "(neverLow sch eps \<longrightarrow>
            epsilonDecay (snd (onEpisodes sch ag eps)) \<le> epsilonDecay ag \<and>
            epsilon (snd (onEpisodes sch ag eps)) \<le> epsilon ag) \<and>
         (list_all ep_win eps \<and>
          (list_all ep_win (history sch) \<or>
           length (history sch) \<le> 20 \<and> 3 \<le> length (filter ep_win (history sch))) \<longrightarrow>
            neverLow sch eps \<and>
            epsilonDecay (snd (onEpisodes sch ag eps)) \<le> epsilonDecay ag \<and>
            epsilon (snd (onEpisodes sch ag eps)) \<le> epsilon ag) \<and>
         (list_all ep_win eps \<and> 20 \<le> length eps \<and> length (history sch) \<le> 20 \<longrightarrow>
            epsilonDecay (snd (onEpisodes sch ag eps)) \<le> epsilonDecay ag \<and>
            epsilon (snd (onEpisodes sch ag eps))
              \<le> max (max (1 / 100) (targetEnd sch))
                    (59049 / 100000
                      * (epsilon ag + 2 * (if s_gameMode sch = Fog then 5 / 100 else 1 / 10))) \<and>
            (max (1 / 100) (targetEnd sch) \<le> epsilon ag \<and>
             59049 / 100000
               * (epsilon ag + 2 * (if s_gameMode sch = Fog then 5 / 100 else 1 / 10))
               \<le> epsilon ag \<longrightarrow>
               epsilon (snd (onEpisodes sch ag eps)) \<le> epsilon ag)) \<and>
         epsilonMin (snd (onEpisodeEnd sch' ag' ep)) \<le> epsilon (snd (onEpisodeEnd sch' ag' ep))"
proof -
  have 1: "epsilonDecay (snd (onEpisodes sch ag eps)) \<le> epsilonDecay ag \<and>
      epsilon (snd (onEpisodes sch ag eps)) \<le> epsilon ag"
    if "neverLow sch eps"
    using assms that by (intro quiet_run)
  have 2: "neverLow sch eps"
    if "list_all ep_win eps \<and>
      (list_all ep_win (history sch) \<or>
       length (history sch) \<le> 20 \<and> 3 \<le> length (filter ep_win (history sch)))"
    using that assms(1) by (intro wins_neverLow) simp_all
  have 3: "epsilonDecay (snd (onEpisodes sch ag eps)) \<le> epsilonDecay ag"
    and 4: "epsilon (snd (onEpisodes sch ag eps))
      \<le> max (max (1 / 100) (targetEnd sch))
            (59049 / 100000
              * (epsilon ag + 2 * (if s_gameMode sch = Fog then 5 / 100 else 1 / 10)))"
    if "list_all ep_win eps \<and> 20 \<le> length eps \<and> length (history sch) \<le> 20"
    using that assms twenty_wins_decay [of sch eps ag] twenty_wins_eps [of sch eps ag]
    by blast+
  have 5: "epsilon (snd (onEpisodes sch ag eps)) \<le> epsilon ag"
    if "list_all ep_win eps \<and> 20 \<le> length eps \<and> length (history sch) \<le> 20"
      and "max (1 / 100) (targetEnd sch) \<le> epsilon ag \<and>
        59049 / 100000
          * (epsilon ag + 2 * (if s_gameMode sch = Fog then 5 / 100 else 1 / 10))
          \<le> epsilon ag"
    using 4 [OF that(1)] that(2) by (simp only: max.bounded_iff) linarith
  from 1 2 3 4 5 show ?thesis
    using epsilonMin_le_epsilon [of sch' ag' ep] by blast
qed

theorem autotune_after_wins_witness:
  "window (sched 17 3) = 20 \<and> minDecay (sched 17 3) = 9 / 10 \<and>
   maxDecay (sched 17 3) = 9999 / 10000 \<and>
   0 \<le> epsilon learner \<and> epsilonMin learner \<le> epsilon learner \<and>
   9 / 10 \<le> epsilonDecay learner \<and>
   list_all ep_win (replicate 20 winEp) \<and> length (replicate 20 winEp) = 20 \<and>
   length (history (sched 17 3)) = 20 \<and> length (filter ep_win (history (sched 17 3))) = 3 \<and>
   neverLow (sched 17 3) (replicate 20 winEp) \<and>
   epsilonDecay (snd (onEpisodes (sched 17 3) learner (replicate 20 winEp)))
     \<le> epsilonDecay learner \<and>
   epsilon (snd (onEpisodes (sched 17 3) learner (replicate 20 winEp))) \<le> epsilon learner \<and>
   list_all ep_win (history (AutoEpsilonScheduler Classic)) \<and>
   epsilon (snd (onEpisodes (AutoEpsilonScheduler Classic) learner (replicate 20 winEp)))
     \<le> epsilon learner \<and>
   window (sched 20 0) = 20 \<and> length (history (sched 20 0)) = 20 \<and>
   length (filter ep_win (history (sched 20 0))) = 0 \<and>
   max (1 / 100) (targetEnd (sched 20 0)) \<le> epsilon learner \<and>
   59049 / 100000 * (epsilon learner + 2 * (1 / 10)) \<le> epsilon learner \<and>
   epsilonDecay (snd (onEpisodes (sched 20 0) learner (replicate 20 winEp)))
     \<le> epsilonDecay learner \<and>
   epsilon (snd (onEpisodes (sched 20 0) learner (replicate 20 winEp))) \<le> epsilon learner \<and>
   epsilonMin (snd (onEpisodeEnd (sched 20 0) resetAgent winEp))
     \<le> epsilon (snd (onEpisodeEnd (sched 20 0) resetAgent winEp))"
proof -
  have a: "0 \<le> epsilon learner" "epsilonMin learner \<le> epsilon learner"
    "9 / 10 \<le> epsilonDecay learner"
    by (simp_all add: learner_def)
  have h: "window (sched 17 3) = 20" "minDecay (sched 17 3) = 9 / 10"
    "maxDecay (sched 17 3) = 9999 / 10000"
    and f: "window (AutoEpsilonScheduler Classic) = 20"
    "minDecay (AutoEpsilonScheduler Classic) = 9 / 10"
    "maxDecay (AutoEpsilonScheduler Classic) = 9999 / 10000"
    and l: "window (sched 20 0) = 20" "minDecay (sched 20 0) = 9 / 10"
    "maxDecay (sched 20 0) = 9999 / 10000"
    by (simp_all add: sched_def AutoEpsilonScheduler_def)
  have w: "list_all ep_win (replicate 20 winEp)" "length (replicate 20 winEp) = 20"
    "length (history (sched 17 3)) = 20" "length (filter ep_win (history (sched 17 3))) = 3"
    "list_all ep_win (history (AutoEpsilonScheduler Classic))"
    "length (history (sched 20 0)) = 20" "length (filter ep_win (history (sched 20 0))) = 0"
    by (simp_all add: sched_def AutoEpsilonScheduler_def winEp_def lossEp_def list_all_iff)
  have w': "length (history (sched 17 3)) \<le> 20"
    "3 \<le> length (filter ep_win (history (sched 17 3)))"
    "20 \<le> length (replicate 20 winEp)" "length (history (sched 20 0)) \<le> 20"
    using w(2,3,4,6) by simp_all
  have gm: "(if s_gameMode (sched 20 0) = Fog then 5 / 100 else 1 / 10) = (1 / 10 :: real)"
    by (simp add: sched_def AutoEpsilonScheduler_def)
  have c: "max (1 / 100) (targetEnd (sched 20 0)) \<le> epsilon learner"
    "59049 / 100000 * (epsilon learner + 2 * (1 / 10)) \<le> epsilon learner"
    by (simp_all add: sched_def AutoEpsilonScheduler_def getTargetEnd_def learner_def)
  show ?thesis
    using autotune_after_wins [OF h a, of "replicate 20 winEp" "sched 20 0" resetAgent winEp]
      autotune_after_wins [OF f a, of "replicate 20 winEp" "sched 20 0" resetAgent winEp]
      autotune_after_wins [OF l a, of "replicate 20 winEp" "sched 20 0" resetAgent winEp,
        unfolded gm]
      h a l(1) w w' c
    by blast
qed


section \<open>Planner: the returned root action\<close>

lemma pickRoot_mem: "fst (pickRoot t s (b, v) as) \<in> insert b (set as)"
proof (induction as arbitrary: b v)
  case Nil
  then show ?case by simp
next
  case (Cons a as)
  show ?case
    using Cons.IH [of b v] Cons.IH [of a]
    by (auto simp: Let_def split: option.splits)
qed

text \<open>
  C7. Whatever the functions handed to the planner, the random draws and the number of
  passes completed within the time budget: if the root state has a valid action, the
  action \<open>mctsPlan\<close> returns is one of the root's valid actions; if it has none, the
  planner returns the default action 0.
\<close>

theorem mctsPlan_root_action:
  "(validActionsFn P s \<noteq> [] \<longrightarrow> mctsPlan P rnd passes s \<in> set (validActionsFn P s)) \<and>
   (validActionsFn P s = [] \<longrightarrow> mctsPlan P rnd passes s = 0)"
proof (cases "validActionsFn P s")
  case Nil
  then show ?thesis by (simp add: mctsPlan_def)
next
  case (Cons a as)
  then have "mctsPlan P rnd passes s \<in> insert a (set (a # as))"
    using pickRoot_mem [of _ s a None "a # as"]
    by (simp add: mctsPlan_def Let_def del: pickRoot.simps)
  with Cons show ?thesis by simp
qed

theorem mctsPlan_root_action_witness:
  "validActionsFn (tabularPlanner 5 5 maze5) (1, 1) = [1] \<and>
   mctsPlan (tabularPlanner 5 5 maze5) (\<lambda>k. 1 / 2) 3 (1, 1) = 1 \<and>
   validActionsFn (tabularPlanner 3 3 maze3) (1, 1) = [] \<and>
   mctsPlan (tabularPlanner 3 3 maze3) (\<lambda>k. 1 / 2) 3 (1, 1) = 0"
proof -
  have v: "validActionsFn (tabularPlanner 5 5 maze5) (1, 1) = [1]"
    "validActionsFn (tabularPlanner 3 3 maze3) (1, 1) = []"
    by (simp_all add: tabularPlanner_def validActionsFromState_def isValidMove_def actions_def
        maze5_def maze3_def maze_at_def Let_def)
  show ?thesis
    using mctsPlan_root_action [of "tabularPlanner 5 5 maze5" "(1, 1)" "\<lambda>k. 1 / 2" 3]
      mctsPlan_root_action [of "tabularPlanner 3 3 maze3" "(1, 1)" "\<lambda>k. 1 / 2" 3] v
    by simp
qed


section \<open>Linear agent: weight update and batches of identical experiences\<close>





lemma length_updated_row:
  "length (map (\<lambda>(wi, si). wi + c * si) (zip w s) @ drop (length s) w) = length w"
  by simp






























end
